theory Spec2Isabelle
  imports Main
begin

section \<open>JavaScript array primitives used by the excerpt builders\<close>

text \<open>
  \<^verbatim>\<open>Array.prototype.slice(start, end)\<close> on integer arguments: a negative index counts
  from the end of the array, every index is clamped to the array, and an empty range gives
  the empty array.
\<close>

definition js_slice :: "'a list \<Rightarrow> int \<Rightarrow> int \<Rightarrow> 'a list" where
  "js_slice xs start end' =
     (let len = int (length xs);
          k = (if start < 0 then max (len + start) 0 else min start len);
          final = (if end' < 0 then max (len + end') 0 else min end' len)
      in take (nat (final - k)) (drop (nat k) xs))"

text \<open>\<^verbatim>\<open>Array.prototype.join(sep)\<close> on an array of strings.\<close>

fun js_join :: "string \<Rightarrow> string list \<Rightarrow> string" where
  "js_join sep [] = []"
| "js_join sep [x] = x"
| "js_join sep (x # y # ys) = x @ sep @ js_join sep (y # ys)"

text \<open>
  \<^verbatim>\<open>allSentences[targetIndex]\<close>: an index outside the array reads \<^verbatim>\<open>undefined\<close>, which
  \<^verbatim>\<open>join\<close> renders as the empty string.
\<close>

definition js_index_joined :: "string list \<Rightarrow> int \<Rightarrow> string" where
  "js_index_joined xs i = (if 0 \<le> i \<and> i < int (length xs) then xs ! nat i else [])"

section \<open>The excerpt builders\<close>

text \<open>
  \<^verbatim>\<open>createExcerpt\<close> of the deterministic module: the preceding sentences, the target
  sentence and the following sentences, each part cut with \<^verbatim>\<open>slice\<close>.
\<close>

definition createExcerpt :: "string list \<Rightarrow> int \<Rightarrow> int \<Rightarrow> int \<Rightarrow> string" where
  "createExcerpt allSentences targetIndex p f =
     (let numSentences = int (length allSentences);
          actualP = min p targetIndex;
          precedingSentences = js_slice allSentences (targetIndex - actualP) targetIndex;
          actualF = min f (numSentences - 1 - targetIndex);
          followingSentences =
            js_slice allSentences (targetIndex + 1) (targetIndex + 1 + actualF);
          contextParts =
            precedingSentences @ [js_index_joined allSentences targetIndex] @ followingSentences
      in js_join '' '' contextParts)"

text \<open>
  \<^verbatim>\<open>createExcerpt\<close> of the single-turn module: one \<^verbatim>\<open>slice\<close> between a clamped
  start and a clamped end.
\<close>

definition createExcerpt_singleturn :: "string list \<Rightarrow> int \<Rightarrow> int \<Rightarrow> int \<Rightarrow> string" where
  "createExcerpt_singleturn tokenizedSentences sentenceIndex preceding following =
     (let start = max 0 (sentenceIndex - preceding);
          end' = min (int (length tokenizedSentences)) (sentenceIndex + following + 1)
      in js_join '' '' (js_slice tokenizedSentences start end'))"

text \<open>
  The window of the specification: \<open>sentences[start..end)\<close> with
  \<open>start = max(0, targetIndex - p)\<close> and \<open>end = min(len(sentences), targetIndex + f + 1)\<close>.
\<close>

definition window_start :: "int \<Rightarrow> int \<Rightarrow> int" where
  "window_start targetIndex p = max 0 (targetIndex - p)"

definition window_end :: "'a list \<Rightarrow> int \<Rightarrow> int \<Rightarrow> int" where
  "window_end sentences targetIndex f = min (int (length sentences)) (targetIndex + f + 1)"

definition spec_window :: "'a list \<Rightarrow> int \<Rightarrow> int \<Rightarrow> int \<Rightarrow> 'a list" where
  "spec_window sentences targetIndex p f =
     (let s = window_start targetIndex p; e = window_end sentences targetIndex f
      in take (nat (e - s)) (drop (nat s) sentences))"

section \<open>Slots, generation calls and stage runs\<close>

text \<open>
  A slot of a stage artifact: the empty object \<^verbatim>\<open>{}\<close> that stands for a pruned
  sentence (the one value with \<^verbatim>\<open>Object.keys(item).length === 0\<close>), or a record.
\<close>

datatype 'a slot = EmptyObject | Populated 'a

text \<open>
  The user prompt of a generation call. Each prompt function of the prompts module fills
  a fixed template with its arguments; the system prompt and the output schema are fixed
  per stage, so a call is determined by its prompt function and the arguments.
\<close>

datatype prompt =
    SELECTION_USER string string string
  | DISAMB_USER string string string
  | DECOMP_USER string string string
  | EVAL_ENTAILMENT_USER string string string string
  | EVAL_CREATE_ELEMENTS_USER string string string
  | EVAL_ELEMENT_COVERAGE_USER string string string string

text \<open>
  The place of a generation call in a stage run: document and sentence index, and the
  claim index for the per-claim calls of the entailment evaluator.
\<close>

datatype site = Sentence nat nat | Claim nat nat nat

type_synonym call = "site \<times> prompt"

text \<open>
  \<^verbatim>\<open>generateObject\<close> is the external capability. It either returns an object that
  conforms to the schema (\<open>Inr\<close>) or throws (\<open>Inl\<close>, with the text that
  \<^verbatim>\<open>${llmError}\<close> renders). The provider may answer the same prompt differently at
  different calls, so the answer is a function of the place of the call and of the prompt.
\<close>

type_synonym 'o generateObject = "site \<Rightarrow> prompt \<Rightarrow> string + 'o"

text \<open>The parsed input artifact: \<^verbatim>\<open>Array.isArray(data)\<close> holds or it does not.\<close>

datatype 'a parsed = NotArray | Array "'a list"

text \<open>
  How a run ends: the error is rethrown to the caller, the function returns without
  writing an output artifact, or the output artifact is written.
\<close>

datatype 'a run = Thrown | ReturnedWithoutOutput | Written 'a

text \<open>
  \<^verbatim>\<open>for (let i = 0; i < xs.length; i++)\<close> with one \<^verbatim>\<open>push\<close> per iteration: the
  pushed values in index order, and the generation calls issued, in order.
\<close>

definition for_index :: "(nat \<Rightarrow> 'a \<Rightarrow> 'b \<times> call list) \<Rightarrow> 'a list \<Rightarrow> 'b list \<times> call list" where
  "for_index body xs =
     (let rs = map (\<lambda>i. body i (xs ! i)) [0..<length xs]
      in (map fst rs, concat (map snd rs)))"

text \<open>The string \<^verbatim>\<open>`ERROR: ${llmError}`\<close>.\<close>

definition error_marker :: "string \<Rightarrow> string" where
  "error_marker llmError = ''ERROR: '' @ llmError"

text \<open>A non-negative integer rendered in a template string.\<close>

fun string_of_nat :: "nat \<Rightarrow> string" where
  "string_of_nat n =
     (if n < 10 then [''0123456789'' ! n]
      else string_of_nat (n div 10) @ [''0123456789'' ! (n mod 10)])"

section \<open>Record shapes\<close>

record DataItemWithExcerpts =
  filename :: string
  query :: "string option"
  response :: string
  tokenized_response :: "string list option"
  excerpts :: "string list option"

record SelectionOutputSchema =
  sentence :: string
  finalSubmission :: string
  sentenceWithOnlyVerifiableInformation :: string

record SelectionOutput = SelectionOutputSchema +
  filename :: string
  originalSentenceIndex :: nat

record SentenceData = SelectionOutputSchema +
  query :: string
  excerpt :: string

record DisambiguationOutputSchema =
  incompleteNamesAnalysis :: string
  linguisticAmbiguityAnalysis :: string
  canBeDisambiguated :: bool
  changesNeeded :: string
  decontextualizedSentence :: string

record DisambiguationData = DisambiguationOutputSchema +
  originalSentence :: string
  query :: string
  excerpt :: string

record DecompositionOutputSchema =
  sentence :: string
  referentialTermsAnalysis :: string
  maxClarifiedSentence :: string
  propositionRange :: string
  specificVerifiablePropositions :: "string list"
  propositionsWithContext :: "string list"

record DecompositionData = DecompositionOutputSchema +
  query :: string
  excerpt :: string

record EntailmentOutputSchema =
  sentenceS :: string
  contextDescription :: string
  claimC :: string
  claimInterpretation :: string
  elementsOfC :: "string list"
  statementsAndActionsRuleApplies :: bool
  statementsAndActionsRuleReasoning :: string
  elementAnalysis :: string
  finalConclusion :: string

text \<open>
  One entry of \<^verbatim>\<open>claimEvaluations\<close>: the evaluation is the validated output, or
  the error string.
\<close>

record ClaimEvaluation =
  claim :: string
  entailmentEvaluation :: "string + EntailmentOutputSchema"

record EntailmentData =
  claimEvaluations :: "ClaimEvaluation list"

record ElementSchema =
  element :: string
  verifiability :: string

record ElementExtractionSchema =
  originalSentence :: string
  clarificationsNeeded :: string
  restatedSentence :: string
  statementsAndActionsRuleApplies :: bool
  statementsAndActionsRuleExplanation :: string
  elements :: "ElementSchema list"

text \<open>\<^verbatim>\<open>elementExtraction: ElementExtractionOutput | string\<close>, the string being an error.\<close>

record ElementCoverageData =
  query :: string
  excerpt :: string
  sentence :: string
  elementExtraction :: "string + ElementExtractionSchema"
  claims :: "string list"

record ElementCoverageItemSchema =
  element :: string
  coverageStatus :: string
  reasoning :: "string option"

record CoverageMetrics =
  truePositives :: int
  falseNegatives :: int
  falsePositives :: int
  trueNegatives :: int

record ElementCoverageEvaluationSchema =
  elementCoverageResults :: "ElementCoverageItemSchema list"
  overallSummary :: string
  metrics :: CoverageMetrics

record CoverageData = ElementCoverageData +
  coverageEvaluation :: "string + ElementCoverageEvaluationSchema"

section \<open>Selection\<close>

text \<open>
  The error record that \<^verbatim>\<open>claimifySelection\<close> builds in its \<^verbatim>\<open>catch\<close> block.
\<close>

definition selectionErrorOutput :: "string \<Rightarrow> nat \<Rightarrow> string \<Rightarrow> string \<Rightarrow> SelectionOutput" where
  "selectionErrorOutput filename' i sentence' llmError =
     \<lparr> SelectionOutputSchema.sentence = sentence',
       finalSubmission = ''Does NOT contain a specific and verifiable proposition'',
       sentenceWithOnlyVerifiableInformation = error_marker llmError,
       SelectionOutput.filename = filename',
       originalSentenceIndex = i \<rparr>"

text \<open>
  One iteration of the sentence loop. On success the raw output is pushed. In the
  \<^verbatim>\<open>catch\<close> block the error record is built, and the \<^verbatim>\<open>push\<close> of it is commented
  out in the source: nothing is pushed.
\<close>

definition selectionSentence ::
  "SelectionOutputSchema generateObject \<Rightarrow> nat \<Rightarrow> string \<Rightarrow> string \<Rightarrow> string list \<Rightarrow>
   nat \<Rightarrow> string \<Rightarrow> SelectionOutputSchema list \<times> call list" where
  "selectionSentence gen docIndex filename' query' excerpts' i sentence' =
     (let excerpt' = excerpts' ! i;
          c = (Sentence docIndex i, SELECTION_USER query' excerpt' sentence')
      in case gen (fst c) (snd c) of
           Inr llmRawOutput \<Rightarrow> ([llmRawOutput], [c])
         | Inl llmError \<Rightarrow>
             (let errorOutput = selectionErrorOutput filename' i sentence' llmError
              in ([], [c])))"

text \<open>
  One iteration of the document loop: the item is skipped by \<^verbatim>\<open>continue\<close> when an array
  is missing or the lengths differ; \<^verbatim>\<open>query.substring\<close> throws a TypeError when the item
  has no query; otherwise the outputs of the sentence loop are pushed as one array.
\<close>

datatype 'a item_result = Skipped | TypeError | Pushed 'a "call list"

definition selectionItem ::
  "SelectionOutputSchema generateObject \<Rightarrow> nat \<Rightarrow> DataItemWithExcerpts \<Rightarrow>
   SelectionOutputSchema list item_result" where
  "selectionItem gen docIndex item =
     (case (tokenized_response item, excerpts item) of
        (Some tokenized, Some excerpts') \<Rightarrow>
          if length tokenized \<noteq> length excerpts' then Skipped
          else (case DataItemWithExcerpts.query item of
                  None \<Rightarrow> TypeError
                | Some query' \<Rightarrow>
                    (let r = for_index
                               (selectionSentence gen docIndex
                                  (DataItemWithExcerpts.filename item) query' excerpts')
                               tokenized
                     in Pushed (concat (fst r)) (snd r)))
      | _ \<Rightarrow> Skipped)"

fun selectionItems ::
  "SelectionOutputSchema generateObject \<Rightarrow> nat \<Rightarrow> DataItemWithExcerpts list \<Rightarrow>
   (SelectionOutputSchema list list \<times> call list) run" where
  "selectionItems gen docIndex [] = Written ([], [])"
| "selectionItems gen docIndex (item # rest) =
     (case selectionItem gen docIndex item of
        Skipped \<Rightarrow> selectionItems gen (Suc docIndex) rest
      | TypeError \<Rightarrow> Thrown
      | Pushed currentFileSelectionOutputs cs \<Rightarrow>
          (case selectionItems gen (Suc docIndex) rest of
             Written (finalGroupedOutput, cs') \<Rightarrow>
               Written (currentFileSelectionOutputs # finalGroupedOutput, cs @ cs')
           | r \<Rightarrow> r))"

definition claimifySelection ::
  "SelectionOutputSchema generateObject \<Rightarrow> DataItemWithExcerpts parsed \<Rightarrow>
   (SelectionOutputSchema list list \<times> call list) run" where
  "claimifySelection gen input =
     (case input of
        NotArray \<Rightarrow> ReturnedWithoutOutput
      | Array data \<Rightarrow> selectionItems gen 0 data)"

section \<open>The deterministic prune filter\<close>

text \<open>
  \<^verbatim>\<open>filterVerifiableInformation\<close>: \<^verbatim>\<open>data.map\<close> throws when the parsed input is not
  an array, and the error is rethrown. A slot that is already the empty object has no
  \<^verbatim>\<open>sentenceWithOnlyVerifiableInformation\<close> and is returned as it is.
\<close>

definition filterItem :: "'a SelectionOutputSchema_scheme slot \<Rightarrow> 'a SelectionOutputSchema_scheme slot" where
  "filterItem item =
     (case item of
        EmptyObject \<Rightarrow> EmptyObject
      | Populated r \<Rightarrow>
          if sentenceWithOnlyVerifiableInformation r = ''None'' then EmptyObject else item)"

definition filterVerifiableInformation ::
  "'a SelectionOutputSchema_scheme slot list parsed \<Rightarrow>
   'a SelectionOutputSchema_scheme slot list list run" where
  "filterVerifiableInformation input =
     (case input of
        NotArray \<Rightarrow> Thrown
      | Array data \<Rightarrow> Written (map (\<lambda>innerArray. map filterItem innerArray) data))"

section \<open>Disambiguation\<close>

definition sentenceForPrompt :: "SentenceData \<Rightarrow> string" where
  "sentenceForPrompt sentenceData =
     (if sentenceWithOnlyVerifiableInformation sentenceData = ''remains unchanged''
      then SelectionOutputSchema.sentence sentenceData
      else sentenceWithOnlyVerifiableInformation sentenceData)"

definition disambiguationErrorOutput :: "string \<Rightarrow> DisambiguationOutputSchema" where
  "disambiguationErrorOutput llmError =
     \<lparr> incompleteNamesAnalysis = error_marker llmError,
       linguisticAmbiguityAnalysis = error_marker llmError,
       canBeDisambiguated = False,
       changesNeeded = error_marker llmError,
       decontextualizedSentence = error_marker llmError \<rparr>"

definition disambiguationSentence ::
  "DisambiguationOutputSchema generateObject \<Rightarrow> nat \<Rightarrow> nat \<Rightarrow> SentenceData slot \<Rightarrow>
   DisambiguationData slot \<times> call list" where
  "disambiguationSentence gen docIndex sentenceIndex sentenceItem =
     (case sentenceItem of
        EmptyObject \<Rightarrow> (EmptyObject, [])
      | Populated sentenceData \<Rightarrow>
          (let c = (Sentence docIndex sentenceIndex,
                    DISAMB_USER (SentenceData.query sentenceData)
                      (SentenceData.excerpt sentenceData) (sentenceForPrompt sentenceData));
               carried = DisambiguationData.fields (sentenceForPrompt sentenceData)
                           (SentenceData.query sentenceData) (SentenceData.excerpt sentenceData)
           in case gen (fst c) (snd c) of
                Inr llmOutput \<Rightarrow>
                  (Populated (DisambiguationOutputSchema.extend llmOutput carried), [c])
              | Inl llmError \<Rightarrow>
                  (Populated (DisambiguationOutputSchema.extend
                                (disambiguationErrorOutput llmError) carried), [c])))"

definition disambiguationDocuments ::
  "DisambiguationOutputSchema generateObject \<Rightarrow> SentenceData slot list list \<Rightarrow>
   DisambiguationData slot list list \<times> call list" where
  "disambiguationDocuments gen data =
     for_index (\<lambda>docIndex documentSentences.
                  for_index (disambiguationSentence gen docIndex) documentSentences) data"

definition claimifyDisambiguiation ::
  "DisambiguationOutputSchema generateObject \<Rightarrow> SentenceData slot list parsed \<Rightarrow>
   (DisambiguationData slot list list \<times> call list) run" where
  "claimifyDisambiguiation gen input =
     (case input of
        NotArray \<Rightarrow> ReturnedWithoutOutput
      | Array data \<Rightarrow> Written (disambiguationDocuments gen data))"

section \<open>Decomposition\<close>

definition decompositionErrorOutput :: "string \<Rightarrow> string \<Rightarrow> DecompositionOutputSchema" where
  "decompositionErrorOutput decontextualized llmError =
     \<lparr> DecompositionOutputSchema.sentence = decontextualized,
       referentialTermsAnalysis = error_marker llmError,
       maxClarifiedSentence = error_marker llmError,
       propositionRange = error_marker llmError,
       specificVerifiablePropositions = [],
       propositionsWithContext = [] \<rparr>"

definition decompositionSentence ::
  "DecompositionOutputSchema generateObject \<Rightarrow> nat \<Rightarrow> nat \<Rightarrow> DisambiguationData slot \<Rightarrow>
   DecompositionData slot \<times> call list" where
  "decompositionSentence gen docIndex sentenceIndex sentenceItem =
     (case sentenceItem of
        EmptyObject \<Rightarrow> (EmptyObject, [])
      | Populated disambiguationData \<Rightarrow>
          if \<not> canBeDisambiguated disambiguationData then (EmptyObject, [])
          else
            (let c = (Sentence docIndex sentenceIndex,
                      DECOMP_USER (DisambiguationData.query disambiguationData)
                        (DisambiguationData.excerpt disambiguationData)
                        (decontextualizedSentence disambiguationData));
                 carried = DecompositionData.fields (DisambiguationData.query disambiguationData)
                             (DisambiguationData.excerpt disambiguationData)
             in case gen (fst c) (snd c) of
                  Inr llmOutput \<Rightarrow>
                    (Populated (DecompositionOutputSchema.extend llmOutput carried), [c])
                | Inl llmError \<Rightarrow>
                    (Populated (DecompositionOutputSchema.extend
                                  (decompositionErrorOutput
                                     (decontextualizedSentence disambiguationData) llmError)
                                  carried), [c])))"

definition decompositionDocuments ::
  "DecompositionOutputSchema generateObject \<Rightarrow> DisambiguationData slot list list \<Rightarrow>
   DecompositionData slot list list \<times> call list" where
  "decompositionDocuments gen data =
     for_index (\<lambda>docIndex documentSentences.
                  for_index (decompositionSentence gen docIndex) documentSentences) data"

definition claimifyDecomposition ::
  "DecompositionOutputSchema generateObject \<Rightarrow> DisambiguationData slot list parsed \<Rightarrow>
   (DecompositionData slot list list \<times> call list) run" where
  "claimifyDecomposition gen input =
     (case input of
        NotArray \<Rightarrow> ReturnedWithoutOutput
      | Array data \<Rightarrow> Written (decompositionDocuments gen data))"

section \<open>Entailment evaluation\<close>

text \<open>
  One iteration of the claim loop of \<^verbatim>\<open>entailmentEvaluator\<close>: the evaluation stored
  with the claim is the validated output, or on failure the error string.
\<close>

definition entailmentClaim ::
  "EntailmentOutputSchema generateObject \<Rightarrow> nat \<Rightarrow> nat \<Rightarrow> DecompositionData \<Rightarrow>
   nat \<Rightarrow> string \<Rightarrow> ClaimEvaluation \<times> call list" where
  "entailmentClaim gen docIndex sentenceIndex decompositionData claimIndex claim' =
     (let c = (Claim docIndex sentenceIndex claimIndex,
               EVAL_ENTAILMENT_USER (DecompositionData.query decompositionData)
                 (DecompositionData.excerpt decompositionData)
                 (DecompositionOutputSchema.sentence decompositionData) claim')
      in case gen (fst c) (snd c) of
           Inr llmResponse \<Rightarrow>
             (\<lparr> claim = claim', entailmentEvaluation = Inr llmResponse \<rparr>, [c])
         | Inl llmError \<Rightarrow>
             (\<lparr> claim = claim', entailmentEvaluation = Inl (error_marker llmError) \<rparr>, [c]))"

text \<open>
  The pushed object holds \<^verbatim>\<open>claimEvaluations\<close> alone; the spread of the input record
  is commented out in the source.
\<close>

definition entailmentSentence ::
  "EntailmentOutputSchema generateObject \<Rightarrow> nat \<Rightarrow> nat \<Rightarrow> DecompositionData slot \<Rightarrow>
   EntailmentData slot \<times> call list" where
  "entailmentSentence gen docIndex sentenceIndex sentenceItem =
     (case sentenceItem of
        EmptyObject \<Rightarrow> (EmptyObject, [])
      | Populated decompositionData \<Rightarrow>
          (let r = for_index (entailmentClaim gen docIndex sentenceIndex decompositionData)
                     (propositionsWithContext decompositionData)
           in (Populated \<lparr> claimEvaluations = fst r \<rparr>, snd r)))"

definition entailmentDocuments ::
  "EntailmentOutputSchema generateObject \<Rightarrow> DecompositionData slot list list \<Rightarrow>
   EntailmentData slot list list \<times> call list" where
  "entailmentDocuments gen data =
     for_index (\<lambda>docIndex documentSentences.
                  for_index (entailmentSentence gen docIndex) documentSentences) data"

definition entailmentEvaluator ::
  "EntailmentOutputSchema generateObject \<Rightarrow> DecompositionData slot list parsed \<Rightarrow>
   (EntailmentData slot list list \<times> call list) run" where
  "entailmentEvaluator gen input =
     (case input of
        NotArray \<Rightarrow> ReturnedWithoutOutput
      | Array data \<Rightarrow> Written (entailmentDocuments gen data))"

text \<open>
  The error record of the single-turn module's \<^verbatim>\<open>baselineEntailmentEvaluator\<close>, which
  that evaluator stores as the evaluation of a failed call.
\<close>

definition baselineEntailmentErrorOutput :: "string \<Rightarrow> string \<Rightarrow> string \<Rightarrow> EntailmentOutputSchema" where
  "baselineEntailmentErrorOutput sentence' claim' llmError =
     \<lparr> sentenceS = sentence',
       contextDescription = error_marker llmError,
       claimC = claim',
       claimInterpretation = error_marker llmError,
       elementsOfC = [],
       EntailmentOutputSchema.statementsAndActionsRuleApplies = False,
       statementsAndActionsRuleReasoning = error_marker llmError,
       elementAnalysis = error_marker llmError,
       finalConclusion = ''S does not entail all elements of C'' \<rparr>"

section \<open>Element extraction\<close>

definition elementExtractorSentence ::
  "ElementExtractionSchema generateObject \<Rightarrow> nat \<Rightarrow> nat \<Rightarrow> DecompositionData slot \<Rightarrow>
   ElementCoverageData slot \<times> call list" where
  "elementExtractorSentence gen docIndex sentenceIndex sentenceItem =
     (case sentenceItem of
        EmptyObject \<Rightarrow> (EmptyObject, [])
      | Populated decompositionData \<Rightarrow>
          (let query' = DecompositionData.query decompositionData;
               excerpt' = DecompositionData.excerpt decompositionData;
               sentence' = DecompositionOutputSchema.sentence decompositionData;
               c = (Sentence docIndex sentenceIndex,
                    EVAL_CREATE_ELEMENTS_USER query' excerpt' sentence')
           in case gen (fst c) (snd c) of
                Inr llmResponse \<Rightarrow>
                  (Populated \<lparr> ElementCoverageData.query = query',
                               ElementCoverageData.excerpt = excerpt',
                               ElementCoverageData.sentence = sentence',
                               elementExtraction = Inr llmResponse,
                               claims = propositionsWithContext decompositionData \<rparr>, [c])
              | Inl llmError \<Rightarrow>
                  (Populated \<lparr> ElementCoverageData.query = query',
                               ElementCoverageData.excerpt = excerpt',
                               ElementCoverageData.sentence = sentence',
                               elementExtraction = Inl (error_marker llmError),
                               claims = propositionsWithContext decompositionData \<rparr>, [c])))"

definition elementExtractorDocuments ::
  "ElementExtractionSchema generateObject \<Rightarrow> DecompositionData slot list list \<Rightarrow>
   ElementCoverageData slot list list \<times> call list" where
  "elementExtractorDocuments gen data =
     for_index (\<lambda>docIndex documentSentences.
                  for_index (elementExtractorSentence gen docIndex) documentSentences) data"

definition elementExtractorV2 ::
  "ElementExtractionSchema generateObject \<Rightarrow> DecompositionData slot list parsed \<Rightarrow>
   (ElementCoverageData slot list list \<times> call list) run" where
  "elementExtractorV2 gen input =
     (case input of
        NotArray \<Rightarrow> ReturnedWithoutOutput
      | Array data \<Rightarrow> Written (elementExtractorDocuments gen data))"

section \<open>Element coverage\<close>

text \<open>\<^verbatim>\<open>xs.map((x, idx) => `${idx + 1}. ${render(x)}`).join("\n")\<close>.\<close>

definition numbered_lines :: "('a \<Rightarrow> string) \<Rightarrow> 'a list \<Rightarrow> string" where
  "numbered_lines render xs =
     js_join [CHR 0x0A]
       (map (\<lambda>idx. string_of_nat (idx + 1) @ ''. '' @ render (xs ! idx)) [0..<length xs])"

definition elementLine :: "ElementSchema \<Rightarrow> string" where
  "elementLine e = ElementSchema.element e @ '' -> '' @ verifiability e"

definition elementCoverageSentence ::
  "ElementCoverageEvaluationSchema generateObject \<Rightarrow> nat \<Rightarrow> nat \<Rightarrow>
   ElementCoverageData slot \<Rightarrow> CoverageData slot \<times> call list" where
  "elementCoverageSentence gen docIndex sentenceIndex sentenceItem =
     (case sentenceItem of
        EmptyObject \<Rightarrow> (EmptyObject, [])
      | Populated elementData \<Rightarrow>
          (case elementExtraction elementData of
             Inl failed \<Rightarrow>
               (Populated (ElementCoverageData.extend elementData
                             (CoverageData.fields
                                (Inl (''SKIPPED: Element extraction failed - '' @ failed)))), [])
           | Inr extraction \<Rightarrow>
               (let query' = ElementCoverageData.query elementData;
                    excerpt' = ElementCoverageData.excerpt elementData;
                    claimsText = numbered_lines (\<lambda>claim'. claim') (claims elementData);
                    elementsText = numbered_lines elementLine (elements extraction);
                    c = (Sentence docIndex sentenceIndex,
                         EVAL_ELEMENT_COVERAGE_USER query' excerpt' claimsText elementsText)
                in case gen (fst c) (snd c) of
                     Inr llmResponse \<Rightarrow>
                       (Populated \<lparr> ElementCoverageData.query = query',
                                    ElementCoverageData.excerpt = excerpt',
                                    ElementCoverageData.sentence =
                                      ElementCoverageData.sentence elementData,
                                    elementExtraction = Inr extraction,
                                    claims = claims elementData,
                                    coverageEvaluation = Inr llmResponse \<rparr>, [c])
                   | Inl llmError \<Rightarrow>
                       (Populated \<lparr> ElementCoverageData.query = query',
                                    ElementCoverageData.excerpt = excerpt',
                                    ElementCoverageData.sentence =
                                      ElementCoverageData.sentence elementData,
                                    elementExtraction = Inr extraction,
                                    claims = claims elementData,
                                    coverageEvaluation = Inl (error_marker llmError) \<rparr>,
                        [c]))))"

definition elementCoverageDocuments ::
  "ElementCoverageEvaluationSchema generateObject \<Rightarrow> ElementCoverageData slot list list \<Rightarrow>
   CoverageData slot list list \<times> call list" where
  "elementCoverageDocuments gen data =
     for_index (\<lambda>docIndex documentSentences.
                  for_index (elementCoverageSentence gen docIndex) documentSentences) data"

definition elementCoverageEvaluatorV2 ::
  "ElementCoverageEvaluationSchema generateObject \<Rightarrow> ElementCoverageData slot list parsed \<Rightarrow>
   (CoverageData slot list list \<times> call list) run" where
  "elementCoverageEvaluatorV2 gen input =
     (case input of
        NotArray \<Rightarrow> ReturnedWithoutOutput
      | Array data \<Rightarrow> Written (elementCoverageDocuments gen data))"

section \<open>Notions used to state the properties\<close>

text \<open>The document and sentence index at which a generation call is placed.\<close>

definition site_position :: "site \<Rightarrow> nat \<times> nat" where
  "site_position s = (case s of Sentence d i \<Rightarrow> (d, i) | Claim d i c \<Rightarrow> (d, i))"

text \<open>Slot \<open>i\<close> of document \<open>d\<close> of an artifact is the empty object.\<close>

definition pruned_at :: "'a slot list list \<Rightarrow> nat \<Rightarrow> nat \<Rightarrow> bool" where
  "pruned_at data d i = (d < length data \<and> i < length (data ! d) \<and> data ! d ! i = EmptyObject)"

text \<open>
  A run wrote an artifact in which slot \<open>i\<close> of document \<open>d\<close> is the empty object,
  and placed no generation call at that slot.
\<close>

definition kept_pruned :: "('a slot list list \<times> call list) run \<Rightarrow> nat \<Rightarrow> nat \<Rightarrow> bool" where
  "kept_pruned r d i =
     (case r of
        Written (out, calls) \<Rightarrow>
          pruned_at out d i \<and> (d, i) \<notin> set (map (\<lambda>c. site_position (fst c)) calls)
      | _ \<Rightarrow> False)"

text \<open>The rewrite field of a populated slot is the sentinel \<^verbatim>\<open>"None"\<close>.\<close>

definition noneRewrite :: "'a SelectionOutputSchema_scheme slot \<Rightarrow> bool" where
  "noneRewrite item =
     (case item of
        EmptyObject \<Rightarrow> False
      | Populated r \<Rightarrow> sentenceWithOnlyVerifiableInformation r = ''None'')"

text \<open>
  The two guards of the document loop of \<^verbatim>\<open>claimifySelection\<close>: an array is missing,
  or the lengths differ.
\<close>

definition malformed :: "DataItemWithExcerpts \<Rightarrow> bool" where
  "malformed item =
     (case (tokenized_response item, excerpts item) of
        (Some tokenized, Some excerpts') \<Rightarrow> length tokenized \<noteq> length excerpts'
      | _ \<Rightarrow> True)"

text \<open>The number of sentences of an input document.\<close>

definition sentenceCount :: "DataItemWithExcerpts \<Rightarrow> nat" where
  "sentenceCount item = (case tokenized_response item of Some tokenized \<Rightarrow> length tokenized | None \<Rightarrow> 0)"

text \<open>
  The array that the document loop of \<^verbatim>\<open>claimifySelection\<close> pushes for the document
  at index \<open>d\<close>: the outputs collected by its sentence loop.
\<close>

definition selectionPushed ::
  "SelectionOutputSchema generateObject \<Rightarrow> nat \<Rightarrow> DataItemWithExcerpts \<Rightarrow>
   SelectionOutputSchema list" where
  "selectionPushed gen docIndex item =
     (case selectionItem gen docIndex item of
        Pushed currentFileSelectionOutputs cs \<Rightarrow> currentFileSelectionOutputs
      | _ \<Rightarrow> [])"

section \<open>Example records\<close>

definition example_item :: "string list \<Rightarrow> string list \<Rightarrow> DataItemWithExcerpts" where
  "example_item tokenized excerpts' =
     \<lparr> DataItemWithExcerpts.filename = ''doc.txt'',
       DataItemWithExcerpts.query = Some ''Q?'',
       response = ''R'',
       tokenized_response = Some tokenized,
       excerpts = Some excerpts' \<rparr>"

definition example_selectionOutput :: "string \<Rightarrow> string \<Rightarrow> SelectionOutputSchema" where
  "example_selectionOutput sentence' rewrite =
     \<lparr> SelectionOutputSchema.sentence = sentence',
       finalSubmission = ''Contains a specific and verifiable proposition'',
       sentenceWithOnlyVerifiableInformation = rewrite \<rparr>"

definition example_sentenceData :: "string \<Rightarrow> string \<Rightarrow> SentenceData" where
  "example_sentenceData sentence' rewrite =
     \<lparr> SelectionOutputSchema.sentence = sentence',
       finalSubmission = ''Contains a specific and verifiable proposition'',
       sentenceWithOnlyVerifiableInformation = rewrite,
       SentenceData.query = ''Q?'',
       SentenceData.excerpt = ''E'' \<rparr>"

definition example_disambiguationOutput :: DisambiguationOutputSchema where
  "example_disambiguationOutput =
     \<lparr> incompleteNamesAnalysis = ''none'',
       linguisticAmbiguityAnalysis = ''none'',
       canBeDisambiguated = True,
       changesNeeded = ''none'',
       decontextualizedSentence = ''D'' \<rparr>"

definition example_disambiguationData :: "bool \<Rightarrow> DisambiguationData" where
  "example_disambiguationData can =
     \<lparr> incompleteNamesAnalysis = ''none'',
       linguisticAmbiguityAnalysis = ''none'',
       canBeDisambiguated = can,
       changesNeeded = ''none'',
       decontextualizedSentence = ''D'',
       DisambiguationData.originalSentence = ''S'',
       DisambiguationData.query = ''Q?'',
       DisambiguationData.excerpt = ''E'' \<rparr>"


definition example_decompositionData :: "string \<Rightarrow> string \<Rightarrow> string \<Rightarrow> DecompositionData" where
  "example_decompositionData sentence' query' excerpt' =
     \<lparr> DecompositionOutputSchema.sentence = sentence',
       referentialTermsAnalysis = ''none'',
       maxClarifiedSentence = ''D'',
       propositionRange = ''1 - 2'',
       specificVerifiablePropositions = [''P1'', ''P2''],
       propositionsWithContext = [''C1'', ''C2''],
       DecompositionData.query = query',
       DecompositionData.excerpt = excerpt' \<rparr>"


definition example_elementExtraction :: ElementExtractionSchema where
  "example_elementExtraction =
     \<lparr> ElementExtractionSchema.originalSentence = ''D'',
       clarificationsNeeded = ''no'',
       restatedSentence = ''D'',
       ElementExtractionSchema.statementsAndActionsRuleApplies = False,
       statementsAndActionsRuleExplanation = ''none'',
       elements = [\<lparr> ElementSchema.element = ''e'',
                     verifiability = ''contains verifiable information'' \<rparr>] \<rparr>"

definition example_elementCoverageData ::
  "string + ElementExtractionSchema \<Rightarrow> ElementCoverageData" where
  "example_elementCoverageData extraction =
     \<lparr> ElementCoverageData.query = ''Q?'',
       ElementCoverageData.excerpt = ''E'',
       ElementCoverageData.sentence = ''D'',
       elementExtraction = extraction,
       claims = [''C1'', ''C2''] \<rparr>"


section \<open>Properties of the excerpt builders\<close>

lemma window_split:
  assumes "s \<le> t" and "t < length xs"
  shows "take (t - s) (drop s xs) @ [xs ! t] @ take b (drop (Suc t) xs)
         = take (t - s + 1 + b) (drop s xs)"
proof -
  have len: "t - s < length (drop s xs)"
    using assms by simp
  have nth: "drop s xs ! (t - s) = xs ! t"
    using assms by simp
  have dr: "drop (Suc (t - s)) (drop s xs) = drop (Suc t) xs"
    using assms by simp
  have sum: "t - s + 1 + b = Suc (t - s) + b"
    by simp
  have "take (t - s + 1 + b) (drop s xs)
        = take (Suc (t - s)) (drop s xs) @ take b (drop (Suc (t - s)) (drop s xs))"
    unfolding sum by (rule take_add)
  also have "take (Suc (t - s)) (drop s xs) = take (t - s) (drop s xs) @ [xs ! t]"
    using len nth by (simp add: take_Suc_conv_app_nth)
  finally show ?thesis
    unfolding dr by simp
qed

lemma contextParts_window:
  assumes "0 \<le> targetIndex" and "targetIndex < int (length xs)" and "0 \<le> p" and "0 \<le> f"
  shows "js_slice xs (targetIndex - min p targetIndex) targetIndex
           @ [js_index_joined xs targetIndex]
           @ js_slice xs (targetIndex + 1)
               (targetIndex + 1 + min f (int (length xs) - 1 - targetIndex))
         = spec_window xs targetIndex p f"
proof -
  define t where "t = nat targetIndex"
  define s where "s = nat (window_start targetIndex p)"
  define b where "b = nat (min f (int (length xs) - 1 - targetIndex))"
  have t: "targetIndex = int t" and tlt: "t < length xs"
    using assms by (simp_all add: t_def)
  have st: "s \<le> t"
    using assms by (simp add: s_def t_def window_start_def)
  have pre: "js_slice xs (targetIndex - min p targetIndex) targetIndex
             = take (t - s) (drop s xs)"
    using assms tlt
    by (auto simp: js_slice_def Let_def s_def t_def window_start_def min_def max_def
        nat_diff_distrib)
  have fol: "js_slice xs (targetIndex + 1)
               (targetIndex + 1 + min f (int (length xs) - 1 - targetIndex))
             = take b (drop (Suc t) xs)"
    using assms tlt
    by (auto simp: js_slice_def Let_def b_def t_def min_def max_def nat_add_distrib)
  have tgt: "js_index_joined xs targetIndex = xs ! t"
    using assms by (simp add: js_index_joined_def t_def)
  have win: "spec_window xs targetIndex p f = take (t - s + 1 + b) (drop s xs)"
  proof -
    have "nat (window_end xs targetIndex f - window_start targetIndex p) = t - s + 1 + b"
      using assms tlt
      by (auto simp: window_end_def window_start_def s_def t_def b_def min_def max_def)
    then show ?thesis
      by (simp add: spec_window_def Let_def s_def)
  qed
  show ?thesis
    unfolding pre fol tgt win using window_split [OF st tlt] .
qed

lemma singleturn_window:
  assumes "0 \<le> targetIndex" and "targetIndex < int (length xs)" and "0 \<le> p" and "0 \<le> f"
  shows "js_slice xs (max 0 (targetIndex - p)) (min (int (length xs)) (targetIndex + f + 1))
         = spec_window xs targetIndex p f"
  using assms
  by (auto simp: js_slice_def spec_window_def window_start_def window_end_def Let_def
      min_def max_def)

text \<open>
  Claim C6. For a target index inside the sentence list and non-negative \<open>p\<close> and
  \<open>f\<close>, the slice-based excerpt builder returns the sentences from
  \<open>max(0, targetIndex - p)\<close> up to, not including, \<open>min(len, targetIndex + f + 1)\<close>,
  joined by one space; the target sentence lies inside that window; and the three
  worked examples of the specification evaluate as stated.
\<close>

theorem createExcerpt_is_window:
  assumes "0 \<le> targetIndex" and "targetIndex < int (length sentences)"
    and "0 \<le> p" and "0 \<le> f"
  shows "createExcerpt sentences targetIndex p f
           = js_join '' '' (spec_window sentences targetIndex p f)
         \<and> window_start targetIndex p \<le> targetIndex
         \<and> targetIndex < window_end sentences targetIndex f
         \<and> spec_window sentences targetIndex p f ! nat (targetIndex - window_start targetIndex p)
             = sentences ! nat targetIndex
         \<and> createExcerpt [''a'', ''b'', ''c'', ''d'', ''e''] 2 1 2 = ''b c d e''
         \<and> createExcerpt [''a'', ''b'', ''c'', ''d'', ''e''] 0 3 0 = ''a''
         \<and> createExcerpt [''a'', ''b'', ''c'', ''d'', ''e''] 4 0 3 = ''e''"
proof -
  have eq: "createExcerpt sentences targetIndex p f
            = js_join '' '' (spec_window sentences targetIndex p f)"
    using contextParts_window [OF assms] by (simp add: createExcerpt_def Let_def)
  have lo: "window_start targetIndex p \<le> targetIndex"
    using assms by (simp add: window_start_def)
  have hi: "targetIndex < window_end sentences targetIndex f"
    using assms by (simp add: window_end_def)
  have inside: "spec_window sentences targetIndex p f
                  ! nat (targetIndex - window_start targetIndex p)
                = sentences ! nat targetIndex"
  proof -
    have s0: "0 \<le> window_start targetIndex p"
      by (simp add: window_start_def)
    have lt: "nat (targetIndex - window_start targetIndex p)
              < nat (window_end sentences targetIndex f - window_start targetIndex p)"
      using lo hi by simp
    have le: "nat (window_start targetIndex p) \<le> length sentences"
      using lo assms by simp
    have sum: "nat (window_start targetIndex p)
               + nat (targetIndex - window_start targetIndex p) = nat targetIndex"
      using lo s0 by simp
    have "drop (nat (window_start targetIndex p)) sentences
            ! nat (targetIndex - window_start targetIndex p)
          = sentences ! nat targetIndex"
      using nth_drop [OF le] sum by simp
    then show ?thesis
      using lt by (simp add: spec_window_def Let_def)
  qed
  have e1: "createExcerpt [''a'', ''b'', ''c'', ''d'', ''e''] 2 1 2 = ''b c d e''"
    by (simp add: createExcerpt_def js_slice_def js_index_joined_def Let_def)
  have e2: "createExcerpt [''a'', ''b'', ''c'', ''d'', ''e''] 0 3 0 = ''a''"
    by (simp add: createExcerpt_def js_slice_def js_index_joined_def Let_def)
  have e3: "createExcerpt [''a'', ''b'', ''c'', ''d'', ''e''] 4 0 3 = ''e''"
    by (simp add: createExcerpt_def js_slice_def js_index_joined_def Let_def)
  show ?thesis
    using eq lo hi inside e1 e2 e3 by blast
qed

theorem createExcerpt_is_window_witness:
  "createExcerpt [''a'', ''b'', ''c'', ''d'', ''e''] 2 1 2
     = js_join '' '' (spec_window [''a'', ''b'', ''c'', ''d'', ''e''] 2 1 2)
   \<and> spec_window [''a'', ''b'', ''c'', ''d'', ''e''] 2 1 2 = [''b'', ''c'', ''d'', ''e'']
   \<and> spec_window [''a'', ''b'', ''c'', ''d'', ''e''] 2 1 2 ! nat (2 - window_start 2 1) = ''c''"
  using createExcerpt_is_window [of 2 "[''a'', ''b'', ''c'', ''d'', ''e'']" 1 2]
  by (simp add: spec_window_def window_start_def window_end_def)

text \<open>
  Claim C10. For a target index inside the sentence list and non-negative \<open>p\<close> and
  \<open>f\<close>, the slice-based builder of the deterministic module and the max/min-based
  builder of the single-turn module return the same string.
\<close>

theorem createExcerpt_builders_agree:
  assumes "0 \<le> targetIndex" and "targetIndex < int (length sentences)"
    and "0 \<le> p" and "0 \<le> f"
  shows "createExcerpt sentences targetIndex p f
         = createExcerpt_singleturn sentences targetIndex p f"
proof -
  have "createExcerpt sentences targetIndex p f
        = js_join '' '' (spec_window sentences targetIndex p f)"
    using contextParts_window [OF assms] by (simp add: createExcerpt_def Let_def)
  also have "\<dots> = createExcerpt_singleturn sentences targetIndex p f"
    using singleturn_window [OF assms] by (simp add: createExcerpt_singleturn_def Let_def)
  finally show ?thesis .
qed

theorem createExcerpt_builders_agree_witness:
  "createExcerpt [''a'', ''b'', ''c'', ''d'', ''e''] 2 1 2 = ''b c d e''
   \<and> createExcerpt_singleturn [''a'', ''b'', ''c'', ''d'', ''e''] 2 1 2 = ''b c d e''"
  using createExcerpt_builders_agree [of 2 "[''a'', ''b'', ''c'', ''d'', ''e'']" 1 2]
  by (simp add: createExcerpt_singleturn_def js_slice_def Let_def)

section \<open>The loop combinator\<close>

lemma for_index_length: "length (fst (for_index body xs)) = length xs"
  by (simp add: for_index_def)

lemma for_index_nth:
  "i < length xs \<Longrightarrow> fst (for_index body xs) ! i = fst (body i (xs ! i))"
  by (simp add: for_index_def)

lemma for_index_calls:
  "set (snd (for_index body xs)) = (\<Union>i\<in>{..<length xs}. set (snd (body i (xs ! i))))"
  by (auto simp: for_index_def)

lemma nested_for_index_length:
  "map length (fst (for_index (\<lambda>d doc. for_index (body d) doc) data)) = map length data"
proof -
  have "map length (fst (for_index (\<lambda>d doc. for_index (body d) doc) data))
        = map (\<lambda>d. length (fst (for_index (body d) (data ! d)))) [0..<length data]"
    by (simp add: for_index_def [of "\<lambda>d doc. for_index (body d) doc"] o_def)
  also have "\<dots> = map (\<lambda>d. length (data ! d)) [0..<length data]"
    by (simp only: for_index_length)
  also have "\<dots> = map length (map ((!) data) [0..<length data])"
    by (simp add: o_def)
  also have "\<dots> = map length data"
    by (simp only: map_nth)
  finally show ?thesis .
qed

lemma nested_for_index_nth:
  assumes "d < length data" and "i < length (data ! d)"
  shows "fst (for_index (\<lambda>d doc. for_index (body d) doc) data) ! d ! i
         = fst (body d i (data ! d ! i))"
  using assms by (simp add: for_index_nth)

lemma nested_for_index_calls:
  assumes "c \<in> set (snd (for_index (\<lambda>d doc. for_index (body d) doc) data))"
  shows "\<exists>d i. d < length data \<and> i < length (data ! d)
               \<and> c \<in> set (snd (body d i (data ! d ! i)))"
proof -
  from assms obtain d where d: "d < length data"
    and c: "c \<in> set (snd (for_index (body d) (data ! d)))"
    unfolding for_index_calls by auto
  from c obtain i where "i < length (data ! d)" and "c \<in> set (snd (body d i (data ! d ! i)))"
    unfolding for_index_calls by auto
  with d show ?thesis by blast
qed

text \<open>A pruned slot stays pruned and no call is placed at it, for any stage step that
  passes the empty object through and places its calls at its own position.\<close>

lemma pruned_slot_kept:
  assumes step_empty: "\<And>d i. body d i EmptyObject = (EmptyObject, [])"
    and step_site: "\<And>d i x c. c \<in> set (snd (body d i x)) \<Longrightarrow> site_position (fst c) = (d, i)"
    and d: "d < length data" and i: "i < length (data ! d)"
    and empty: "data ! d ! i = EmptyObject"
  shows "fst (for_index (\<lambda>d doc. for_index (body d) doc) data) ! d ! i = EmptyObject
         \<and> (d, i) \<notin> set (map (\<lambda>c. site_position (fst c)) (snd (for_index (\<lambda>d doc. for_index (body d) doc) data)))"
proof
  show "fst (for_index (\<lambda>d doc. for_index (body d) doc) data) ! d ! i = EmptyObject"
    using nested_for_index_nth [OF d i, of body] empty step_empty by simp
next
  show "(d, i) \<notin> set (map (\<lambda>c. site_position (fst c)) (snd (for_index (\<lambda>d doc. for_index (body d) doc) data)))"
  proof
    assume "(d, i) \<in> set (map (\<lambda>c. site_position (fst c)) (snd (for_index (\<lambda>d doc. for_index (body d) doc) data)))"
    then obtain c where c: "c \<in> set (snd (for_index (\<lambda>d doc. for_index (body d) doc) data))"
      and pos: "site_position (fst c) = (d, i)"
      by force
    from nested_for_index_calls [OF c] obtain d' i' where
      c': "c \<in> set (snd (body d' i' (data ! d' ! i')))"
      by blast
    from step_site [OF c'] pos have "d' = d" and "i' = i"
      by simp_all
    with c' empty step_empty show False
      by simp
  qed
qed

lemma disambiguationSentence_site:
  "c \<in> set (snd (disambiguationSentence gen d i x)) \<Longrightarrow> site_position (fst c) = (d, i)"
  by (auto simp: disambiguationSentence_def site_position_def Let_def
      split: slot.splits sum.splits)

lemma decompositionSentence_site:
  "c \<in> set (snd (decompositionSentence gen d i x)) \<Longrightarrow> site_position (fst c) = (d, i)"
  by (auto simp: decompositionSentence_def site_position_def Let_def
      split: slot.splits sum.splits if_splits)

lemma entailmentClaim_site:
  "c \<in> set (snd (entailmentClaim gen d i dd k cl)) \<Longrightarrow> site_position (fst c) = (d, i)"
  by (auto simp: entailmentClaim_def site_position_def Let_def split: sum.splits)

lemma entailmentSentence_site:
  "c \<in> set (snd (entailmentSentence gen d i x)) \<Longrightarrow> site_position (fst c) = (d, i)"
  by (auto simp: entailmentSentence_def for_index_calls Let_def
      split: slot.splits dest: entailmentClaim_site)

lemma elementExtractorSentence_site:
  "c \<in> set (snd (elementExtractorSentence gen d i x)) \<Longrightarrow> site_position (fst c) = (d, i)"
  by (auto simp: elementExtractorSentence_def site_position_def Let_def
      split: slot.splits sum.splits)

lemma elementCoverageSentence_site:
  "c \<in> set (snd (elementCoverageSentence gen d i x)) \<Longrightarrow> site_position (fst c) = (d, i)"
  by (auto simp: elementCoverageSentence_def site_position_def Let_def
      split: slot.splits sum.splits)

section \<open>Pruning\<close>

lemma stage_keeps_pruned:
  assumes step_empty: "\<And>d i. body d i EmptyObject = (EmptyObject, [])"
    and step_site: "\<And>d i x c. c \<in> set (snd (body d i x)) \<Longrightarrow> site_position (fst c) = (d, i)"
    and pruned: "pruned_at data d i"
  shows "kept_pruned (Written (for_index (\<lambda>d doc. for_index (body d) doc) data)) d i"
proof -
  let ?r = "for_index (\<lambda>d doc. for_index (body d) doc) data"
  from pruned have d: "d < length data" and i: "i < length (data ! d)"
    and empty: "data ! d ! i = EmptyObject"
    by (simp_all add: pruned_at_def)
  have len: "map length (fst ?r) = map length data"
    by (rule nested_for_index_length)
  then have "length (fst ?r) = length data"
    by (metis length_map)
  moreover from len d have "length (fst ?r ! d) = length (data ! d)"
    by (metis length_map nth_map)
  moreover note pruned_slot_kept [of body, OF step_empty step_site d i empty]
  ultimately have "pruned_at (fst ?r) d i
      \<and> (d, i) \<notin> set (map (\<lambda>c. site_position (fst c)) (snd ?r))"
    using d i by (simp add: pruned_at_def)
  then show ?thesis
    by (simp add: kept_pruned_def split_beta)
qed

lemma disambiguation_keeps_pruned:
  "pruned_at data d i \<Longrightarrow> kept_pruned (claimifyDisambiguiation gen (Array data)) d i"
  unfolding claimifyDisambiguiation_def disambiguationDocuments_def parsed.case
  by (rule stage_keeps_pruned)
     (simp_all add: disambiguationSentence_def disambiguationSentence_site)

lemma decomposition_keeps_pruned:
  "pruned_at data d i \<Longrightarrow> kept_pruned (claimifyDecomposition gen (Array data)) d i"
  unfolding claimifyDecomposition_def decompositionDocuments_def parsed.case
  by (rule stage_keeps_pruned)
     (simp_all add: decompositionSentence_def decompositionSentence_site)

lemma entailment_keeps_pruned:
  "pruned_at data d i \<Longrightarrow> kept_pruned (entailmentEvaluator gen (Array data)) d i"
  unfolding entailmentEvaluator_def entailmentDocuments_def parsed.case
  by (rule stage_keeps_pruned)
     (simp_all add: entailmentSentence_def entailmentSentence_site)

lemma elementExtractor_keeps_pruned:
  "pruned_at data d i \<Longrightarrow> kept_pruned (elementExtractorV2 gen (Array data)) d i"
  unfolding elementExtractorV2_def elementExtractorDocuments_def parsed.case
  by (rule stage_keeps_pruned)
     (simp_all add: elementExtractorSentence_def elementExtractorSentence_site)

lemma elementCoverage_keeps_pruned:
  "pruned_at data d i \<Longrightarrow> kept_pruned (elementCoverageEvaluatorV2 gen (Array data)) d i"
  unfolding elementCoverageEvaluatorV2_def elementCoverageDocuments_def parsed.case
  by (rule stage_keeps_pruned)
     (simp_all add: elementCoverageSentence_def elementCoverageSentence_site)

text \<open>
  Claim C8. A slot that is the empty object in the input of Disambiguation,
  Decomposition, Entailment evaluation, Element extraction or Coverage evaluation is the
  empty object at the same document and sentence index of the output, and the run places
  no generation call at that slot; so a slot pruned before Disambiguation is still pruned
  after Decomposition.
\<close>

theorem pruned_slots_stay_pruned:
  "(pruned_at dataS d i \<longrightarrow> kept_pruned (claimifyDisambiguiation genS (Array dataS)) d i)
   \<and> (pruned_at dataD d i \<longrightarrow> kept_pruned (claimifyDecomposition genD (Array dataD)) d i)
   \<and> (pruned_at dataC d i \<longrightarrow> kept_pruned (entailmentEvaluator genE (Array dataC)) d i)
   \<and> (pruned_at dataC d i \<longrightarrow> kept_pruned (elementExtractorV2 genX (Array dataC)) d i)
   \<and> (pruned_at dataE d i \<longrightarrow> kept_pruned (elementCoverageEvaluatorV2 genV (Array dataE)) d i)
   \<and> (pruned_at dataS d i \<longrightarrow>
        kept_pruned (claimifyDecomposition genD
          (Array (fst (disambiguationDocuments genS dataS)))) d i)"
proof -
  have chain: "kept_pruned (claimifyDecomposition genD
                 (Array (fst (disambiguationDocuments genS dataS)))) d i"
    if "pruned_at dataS d i"
  proof -
    from disambiguation_keeps_pruned [OF that, of genS]
    have "pruned_at (fst (disambiguationDocuments genS dataS)) d i"
      by (simp add: claimifyDisambiguiation_def kept_pruned_def split_beta)
    then show ?thesis
      by (rule decomposition_keeps_pruned)
  qed
  show ?thesis
    using disambiguation_keeps_pruned decomposition_keeps_pruned entailment_keeps_pruned
      elementExtractor_keeps_pruned elementCoverage_keeps_pruned chain
    by blast
qed

theorem pruned_slots_stay_pruned_witness:
  "pruned_at [[Populated (example_sentenceData ''S'' ''remains unchanged''), EmptyObject]] 0 1
   \<and> kept_pruned (claimifyDisambiguiation (\<lambda>s p. Inl ''timeout'')
        (Array [[Populated (example_sentenceData ''S'' ''remains unchanged''), EmptyObject]])) 0 1
   \<and> pruned_at [[Populated (example_disambiguationData True), EmptyObject]] 0 1
   \<and> kept_pruned (claimifyDecomposition (\<lambda>s p. Inl ''timeout'')
        (Array [[Populated (example_disambiguationData True), EmptyObject]])) 0 1
   \<and> pruned_at [[Populated (example_decompositionData ''D'' ''Q?'' ''E''), EmptyObject]] 0 1
   \<and> kept_pruned (entailmentEvaluator (\<lambda>s p. Inl ''timeout'')
        (Array [[Populated (example_decompositionData ''D'' ''Q?'' ''E''), EmptyObject]])) 0 1
   \<and> kept_pruned (elementExtractorV2 (\<lambda>s p. Inl ''timeout'')
        (Array [[Populated (example_decompositionData ''D'' ''Q?'' ''E''), EmptyObject]])) 0 1
   \<and> pruned_at [[Populated (example_elementCoverageData (Inr example_elementExtraction)),
                  EmptyObject]] 0 1
   \<and> kept_pruned (elementCoverageEvaluatorV2 (\<lambda>s p. Inl ''timeout'')
        (Array [[Populated (example_elementCoverageData (Inr example_elementExtraction)),
                 EmptyObject]])) 0 1
   \<and> kept_pruned (claimifyDecomposition (\<lambda>s p. Inl ''timeout'')
        (Array (fst (disambiguationDocuments (\<lambda>s p. Inl ''timeout'')
           [[Populated (example_sentenceData ''S'' ''remains unchanged''), EmptyObject]])))) 0 1"
  using pruned_slots_stay_pruned
    [of "[[Populated (example_sentenceData ''S'' ''remains unchanged''), EmptyObject]]" 0 1
        "\<lambda>s p. Inl ''timeout''"
        "[[Populated (example_disambiguationData True), EmptyObject]]"
        "\<lambda>s p. Inl ''timeout''"
        "[[Populated (example_decompositionData ''D'' ''Q?'' ''E''), EmptyObject]]"
        "\<lambda>s p. Inl ''timeout''" "\<lambda>s p. Inl ''timeout''"
        "[[Populated (example_elementCoverageData (Inr example_elementExtraction)), EmptyObject]]"
        "\<lambda>s p. Inl ''timeout''"]
  by (simp add: pruned_at_def)

text \<open>
  Claim C9. The Disambiguation prompt is built with the original sentence when the rewrite
  field is exactly \<^verbatim>\<open>"remains unchanged"\<close>; for every other value, the differently
  cased \<^verbatim>\<open>"Remains Unchanged"\<close> included, it is built with the rewrite field itself.
\<close>

theorem disambiguation_prompt_sentence:
  "(sentenceWithOnlyVerifiableInformation sd = ''remains unchanged'' \<longrightarrow>
      snd (disambiguationSentence gen d i (Populated sd))
      = [(Sentence d i, DISAMB_USER (SentenceData.query sd) (SentenceData.excerpt sd)
                          (SelectionOutputSchema.sentence sd))])
   \<and> (sentenceWithOnlyVerifiableInformation sd \<noteq> ''remains unchanged'' \<longrightarrow>
      snd (disambiguationSentence gen d i (Populated sd))
      = [(Sentence d i, DISAMB_USER (SentenceData.query sd) (SentenceData.excerpt sd)
                          (sentenceWithOnlyVerifiableInformation sd))])
   \<and> (sentenceWithOnlyVerifiableInformation sd = ''Remains Unchanged'' \<longrightarrow>
      snd (disambiguationSentence gen d i (Populated sd))
      = [(Sentence d i, DISAMB_USER (SentenceData.query sd) (SentenceData.excerpt sd)
                          ''Remains Unchanged'')])"
  by (auto simp: disambiguationSentence_def sentenceForPrompt_def Let_def split: sum.splits)

theorem disambiguation_prompt_sentence_witness:
  "snd (disambiguationSentence (\<lambda>s p. Inr example_disambiguationOutput) 0 0
          (Populated (example_sentenceData ''S'' ''remains unchanged'')))
     = [(Sentence 0 0, DISAMB_USER ''Q?'' ''E'' ''S'')]
   \<and> snd (disambiguationSentence (\<lambda>s p. Inr example_disambiguationOutput) 0 0
          (Populated (example_sentenceData ''S'' ''Remains Unchanged'')))
     = [(Sentence 0 0, DISAMB_USER ''Q?'' ''E'' ''Remains Unchanged'')]"
  using disambiguation_prompt_sentence
      [of "example_sentenceData ''S'' ''remains unchanged''"
          "\<lambda>s p. Inr example_disambiguationOutput" 0 0]
    disambiguation_prompt_sentence
      [of "example_sentenceData ''S'' ''Remains Unchanged''"
          "\<lambda>s p. Inr example_disambiguationOutput" 0 0]
  by (simp add: example_sentenceData_def)

text \<open>
  Claim C7. The prune filter writes an artifact with the same number of documents and the
  same number of slots in each; a populated slot whose rewrite field is \<^verbatim>\<open>"None"\<close>
  becomes the empty object, and every other slot is the input slot at the same place.
\<close>

theorem filter_prunes_exactly_None:
  "\<exists>out. filterVerifiableInformation (Array data) = Written out
      \<and> map length out = map length data
      \<and> (\<forall>d i. d < length data \<and> i < length (data ! d) \<longrightarrow>
            (noneRewrite (data ! d ! i) \<longrightarrow> out ! d ! i = EmptyObject)
          \<and> (\<not> noneRewrite (data ! d ! i) \<longrightarrow> out ! d ! i = data ! d ! i))"
proof -
  let ?out = "map (\<lambda>innerArray. map filterItem innerArray) data"
  have item: "(noneRewrite x \<longrightarrow> filterItem x = EmptyObject)
              \<and> (\<not> noneRewrite x \<longrightarrow> filterItem x = x)" for x :: "'a SelectionOutputSchema_scheme slot"
    by (simp add: noneRewrite_def filterItem_def split: slot.splits)
  have "filterVerifiableInformation (Array data) = Written ?out"
    by (simp add: filterVerifiableInformation_def)
  moreover have "map length ?out = map length data"
    by (simp add: o_def)
  moreover have "?out ! d ! i = filterItem (data ! d ! i)"
    if "d < length data" and "i < length (data ! d)" for d i
    using that by simp
  ultimately show ?thesis
    using item by auto
qed

theorem filter_prunes_exactly_None_witness:
  "filterVerifiableInformation
     (Array [[Populated (example_selectionOutput ''S1'' ''None''), EmptyObject,
              Populated (example_selectionOutput ''S3'' ''remains unchanged'')]])
   = Written [[EmptyObject, EmptyObject,
               Populated (example_selectionOutput ''S3'' ''remains unchanged'')]]"
  using filter_prunes_exactly_None
    [of "[[Populated (example_selectionOutput ''S1'' ''None''), EmptyObject,
           Populated (example_selectionOutput ''S3'' ''remains unchanged'')]]"]
  by (simp add: filterVerifiableInformation_def filterItem_def example_selectionOutput_def)

section \<open>Alignment of stage outputs\<close>

lemma stage_alignment:
  "map length (fst (for_index (\<lambda>d doc. for_index (body d) doc) data)) = map length data
   \<and> (\<forall>d i. d < length data \<and> i < length (data ! d) \<longrightarrow>
          fst (for_index (\<lambda>d doc. for_index (body d) doc) data) ! d ! i
          = fst (body d i (data ! d ! i)))"
  using nested_for_index_length [of body data] nested_for_index_nth [of _ data _ body]
  by blast

lemma selectionItem_malformed:
  "malformed item \<Longrightarrow> selectionItem gen k item = Skipped"
  by (auto simp: malformed_def selectionItem_def split: option.splits)

lemma selectionItem_no_query:
  "\<not> malformed item \<Longrightarrow> DataItemWithExcerpts.query item = None
   \<Longrightarrow> selectionItem gen k item = TypeError"
  by (auto simp: malformed_def selectionItem_def split: option.splits)

lemma selectionItem_pushed:
  "\<not> malformed item \<Longrightarrow> DataItemWithExcerpts.query item \<noteq> None
   \<Longrightarrow> \<exists>outs cs. selectionItem gen k item = Pushed outs cs"
  by (auto simp: malformed_def selectionItem_def Let_def split: option.splits)

lemma selectionItems_skip:
  "malformed item \<Longrightarrow> selectionItems gen k (item # rest) = selectionItems gen (Suc k) rest"
  by (simp add: selectionItem_malformed)

lemma selectionItems_throw:
  "\<not> malformed item \<Longrightarrow> DataItemWithExcerpts.query item = None
   \<Longrightarrow> selectionItems gen k (item # rest) = Thrown"
  by (simp add: selectionItem_no_query)

lemma selectionItems_throw_later:
  "selectionItems gen (Suc k) rest = Thrown \<Longrightarrow> selectionItems gen k (item # rest) = Thrown"
  by (simp split: item_result.splits)

lemma selection_sentences_all_succeed:
  assumes ok: "\<forall>i. i < length t \<longrightarrow>
                 (\<exists>r. gen (Sentence k i) (SELECTION_USER q (e ! i) (t ! i)) = Inr r)"
  shows "length (concat (fst (for_index (selectionSentence gen k fn q e) t))) = length t
         \<and> (\<forall>i. i < length t \<longrightarrow>
               gen (Sentence k i) (SELECTION_USER q (e ! i) (t ! i))
               = Inr (concat (fst (for_index (selectionSentence gen k fn q e) t)) ! i))"
proof -
  define f where "f i = projr (gen (Sentence k i) (SELECTION_USER q (e ! i) (t ! i)))" for i
  have step: "fst (selectionSentence gen k fn q e i (t ! i)) = [f i]" if "i < length t" for i
    using ok that by (auto simp: selectionSentence_def f_def Let_def)
  have "fst (for_index (selectionSentence gen k fn q e) t) = map (\<lambda>i. [f i]) [0..<length t]"
    by (simp add: for_index_def step)
  then have flat: "concat (fst (for_index (selectionSentence gen k fn q e) t))
                   = map f [0..<length t]"
    by (simp add: concat_map_singleton)
  have "gen (Sentence k i) (SELECTION_USER q (e ! i) (t ! i)) = Inr (f i)"
    if "i < length t" for i
    using ok that by (auto simp: f_def)
  then show ?thesis
    unfolding flat by simp
qed

lemma enumerate_filter_snd:
  "map snd (filter (\<lambda>(d, item). P item) (enumerate k xs)) = filter P xs"
  by (induction xs arbitrary: k) simp_all

lemma selectionItems_pushed_in_order:
  assumes "\<forall>item \<in> set data. \<not> malformed item \<longrightarrow> DataItemWithExcerpts.query item \<noteq> None"
  shows "\<exists>calls. selectionItems gen k data
           = Written (map (\<lambda>(d, item). selectionPushed gen d item)
                        (filter (\<lambda>(d, item). \<not> malformed item) (enumerate k data)), calls)"
  using assms
proof (induction data arbitrary: k)
  case Nil
  then show ?case by simp
next
  case (Cons item rest)
  from Cons obtain calls where
    rest: "selectionItems gen (Suc k) rest
           = Written (map (\<lambda>(d, item). selectionPushed gen d item)
                        (filter (\<lambda>(d, item). \<not> malformed item) (enumerate (Suc k) rest)), calls)"
    by fastforce
  show ?case
  proof (cases "malformed item")
    case True
    then show ?thesis
      using rest by (simp add: selectionItem_malformed)
  next
    case False
    with Cons.prems have "DataItemWithExcerpts.query item \<noteq> None"
      by simp
    from selectionItem_pushed [OF False this] obtain outs cs where
      "selectionItem gen k item = Pushed outs cs"
      by blast
    then show ?thesis
      using False rest by (simp add: selectionPushed_def)
  qed
qed

lemma selectionPushed_all_succeed:
  assumes t: "tokenized_response item = Some t" and e: "excerpts item = Some e"
    and len: "length t = length e" and q: "DataItemWithExcerpts.query item = Some q"
    and ok: "\<forall>i. i < length t \<longrightarrow>
               (\<exists>r. gen (Sentence k i) (SELECTION_USER q (e ! i) (t ! i)) = Inr r)"
  shows "selectionItem gen k item
           = Pushed (selectionPushed gen k item)
               (snd (for_index
                  (selectionSentence gen k (DataItemWithExcerpts.filename item) q e) t))
         \<and> length (selectionPushed gen k item) = length t
         \<and> (\<forall>i. i < length t \<longrightarrow>
               gen (Sentence k i) (SELECTION_USER q (e ! i) (t ! i))
               = Inr (selectionPushed gen k item ! i))"
proof -
  have item: "selectionItem gen k item
          = Pushed (concat (fst (for_index
                      (selectionSentence gen k (DataItemWithExcerpts.filename item) q e) t)))
              (snd (for_index
                      (selectionSentence gen k (DataItemWithExcerpts.filename item) q e) t))"
    using t e len q by (simp add: selectionItem_def Let_def)
  then have pushed: "selectionPushed gen k item
          = concat (fst (for_index
                      (selectionSentence gen k (DataItemWithExcerpts.filename item) q e) t))"
    by (simp add: selectionPushed_def)
  show ?thesis
    using item selection_sentences_all_succeed [OF ok, of "DataItemWithExcerpts.filename item"]
    unfolding pushed by blast
qed

lemma well_formed_fields:
  assumes "\<not> malformed item"
  shows "\<exists>t e. tokenized_response item = Some t \<and> excerpts item = Some e
               \<and> length t = length e \<and> sentenceCount item = length t"
  using assms by (auto simp: malformed_def sentenceCount_def split: option.splits)

lemma selection_run_all_succeed:
  assumes qs: "\<forall>item \<in> set data. \<not> malformed item \<longrightarrow> DataItemWithExcerpts.query item \<noteq> None"
    and ok: "\<forall>s p. \<exists>r. gen s p = Inr r"
  shows "\<exists>out calls. selectionItems gen k data = Written (out, calls)
           \<and> map length out = map sentenceCount (filter (\<lambda>item. \<not> malformed item) data)
           \<and> (\<forall>j d item i. j < length out
                 \<and> filter (\<lambda>(d, item). \<not> malformed item) (enumerate k data) ! j = (d, item)
                 \<and> i < sentenceCount item \<longrightarrow>
                 (\<exists>q t e. DataItemWithExcerpts.query item = Some q
                    \<and> tokenized_response item = Some t \<and> excerpts item = Some e
                    \<and> gen (Sentence d i) (SELECTION_USER q (e ! i) (t ! i))
                      = Inr (out ! j ! i)))"
proof -
  let ?L = "filter (\<lambda>(d, item). \<not> malformed item) (enumerate k data)"
  let ?out = "map (\<lambda>(d, item). selectionPushed gen d item) ?L"
  from selectionItems_pushed_in_order [OF qs, of gen k] obtain calls where
    run: "selectionItems gen k data = Written (?out, calls)"
    by blast
  have snd_L: "map snd ?L = filter (\<lambda>item. \<not> malformed item) data"
    by (rule enumerate_filter_snd)
  have doc: "length (selectionPushed gen d item) = sentenceCount item
             \<and> (\<forall>i. i < sentenceCount item \<longrightarrow>
                   (\<exists>q t e. DataItemWithExcerpts.query item = Some q
                      \<and> tokenized_response item = Some t \<and> excerpts item = Some e
                      \<and> gen (Sentence d i) (SELECTION_USER q (e ! i) (t ! i))
                        = Inr (selectionPushed gen d item ! i)))"
    if mem: "(d, item) \<in> set ?L" for d item
  proof -
    from mem have "item \<in> set (map snd ?L)"
      by force
    then have in_data: "item \<in> set data" and wf: "\<not> malformed item"
      unfolding snd_L by simp_all
    from well_formed_fields [OF wf] obtain t e where
      t: "tokenized_response item = Some t" and e: "excerpts item = Some e"
      and len: "length t = length e" and cnt: "sentenceCount item = length t"
      by blast
    from qs in_data wf obtain q where q: "DataItemWithExcerpts.query item = Some q"
      by auto
    have "\<forall>i. i < length t \<longrightarrow>
            (\<exists>r. gen (Sentence d i) (SELECTION_USER q (e ! i) (t ! i)) = Inr r)"
      using ok by simp
    from selectionPushed_all_succeed [OF t e len q this] show ?thesis
      using t e q cnt by simp
  qed
  have lens: "map length ?out = map sentenceCount (filter (\<lambda>item. \<not> malformed item) data)"
  proof -
    have "map length ?out = map (\<lambda>x. sentenceCount (snd x)) ?L"
      using doc by (auto simp del: set_filter)
    also have "\<dots> = map sentenceCount (map snd ?L)"
      by (simp add: o_def)
    finally show ?thesis
      unfolding snd_L .
  qed
  have entries: "\<exists>q t e. DataItemWithExcerpts.query item = Some q
                    \<and> tokenized_response item = Some t \<and> excerpts item = Some e
                    \<and> gen (Sentence d i) (SELECTION_USER q (e ! i) (t ! i))
                      = Inr (?out ! j ! i)"
    if "j < length ?out" and "?L ! j = (d, item)" and "i < sentenceCount item" for j d item i
  proof -
    from that have j: "j < length ?L"
      by simp
    with that have mem: "(d, item) \<in> set ?L"
      by (metis nth_mem)
    from j that have "?out ! j = selectionPushed gen d item"
      by simp
    with doc [OF mem] that show ?thesis
      by simp
  qed
  from run lens entries show ?thesis
    by blast
qed

text \<open>
  Claim C1, as amended. A run of Disambiguation, Decomposition, Entailment evaluation,
  Element extraction or Coverage evaluation on an array writes one slot sequence per input
  document, each with exactly as many entries as the document's input slot sequence, entry
  \<open>i\<close> being the result of the stage's step on input slot \<open>i\<close>, whether or not
  generation calls fail. At Selection a document whose \<^verbatim>\<open>tokenized_response\<close> or
  \<^verbatim>\<open>excerpts\<close> is missing, or whose lengths differ, is skipped and gets no output
  sequence: when every remaining document has a query the run writes exactly the arrays
  pushed for the well-formed documents, in document order; a well-formed document whose
  generation calls all succeed has one entry per sentence pushed, entry \<open>i\<close> being the
  output of the call for sentence \<open>i\<close>; and when every call of the run succeeds, entry
  \<open>i\<close> of the \<open>j\<close>-th written sequence is the output of the call for sentence
  \<open>i\<close> of the \<open>j\<close>-th well-formed document.
\<close>

theorem stage_outputs_aligned:
  "claimifyDisambiguiation genS (Array dataS) = Written (disambiguationDocuments genS dataS)
   \<and> map length (fst (disambiguationDocuments genS dataS)) = map length dataS
   \<and> (\<forall>d i. d < length dataS \<and> i < length (dataS ! d) \<longrightarrow>
          fst (disambiguationDocuments genS dataS) ! d ! i
          = fst (disambiguationSentence genS d i (dataS ! d ! i)))
   \<and> claimifyDecomposition genD (Array dataD) = Written (decompositionDocuments genD dataD)
   \<and> map length (fst (decompositionDocuments genD dataD)) = map length dataD
   \<and> (\<forall>d i. d < length dataD \<and> i < length (dataD ! d) \<longrightarrow>
          fst (decompositionDocuments genD dataD) ! d ! i
          = fst (decompositionSentence genD d i (dataD ! d ! i)))
   \<and> entailmentEvaluator genE (Array dataC) = Written (entailmentDocuments genE dataC)
   \<and> map length (fst (entailmentDocuments genE dataC)) = map length dataC
   \<and> (\<forall>d i. d < length dataC \<and> i < length (dataC ! d) \<longrightarrow>
          fst (entailmentDocuments genE dataC) ! d ! i
          = fst (entailmentSentence genE d i (dataC ! d ! i)))
   \<and> elementExtractorV2 genX (Array dataC) = Written (elementExtractorDocuments genX dataC)
   \<and> map length (fst (elementExtractorDocuments genX dataC)) = map length dataC
   \<and> (\<forall>d i. d < length dataC \<and> i < length (dataC ! d) \<longrightarrow>
          fst (elementExtractorDocuments genX dataC) ! d ! i
          = fst (elementExtractorSentence genX d i (dataC ! d ! i)))
   \<and> elementCoverageEvaluatorV2 genV (Array dataE)
       = Written (elementCoverageDocuments genV dataE)
   \<and> map length (fst (elementCoverageDocuments genV dataE)) = map length dataE
   \<and> (\<forall>d i. d < length dataE \<and> i < length (dataE ! d) \<longrightarrow>
          fst (elementCoverageDocuments genV dataE) ! d ! i
          = fst (elementCoverageSentence genV d i (dataE ! d ! i)))
   \<and> ((\<forall>item \<in> set data. \<not> malformed item \<longrightarrow> DataItemWithExcerpts.query item \<noteq> None) \<longrightarrow>
        (\<exists>out calls. claimifySelection genL (Array data) = Written (out, calls)
            \<and> length out = length (filter (\<lambda>item. \<not> malformed item) data)
            \<and> out = map (\<lambda>(d, item). selectionPushed genL d item)
                      (filter (\<lambda>(d, item). \<not> malformed item) (enumerate 0 data))))
   \<and> ((\<forall>item \<in> set data. \<not> malformed item \<longrightarrow> DataItemWithExcerpts.query item \<noteq> None)
        \<and> (\<forall>s p. \<exists>r. genL s p = Inr r) \<longrightarrow>
        (\<exists>out calls. claimifySelection genL (Array data) = Written (out, calls)
            \<and> map length out = map sentenceCount (filter (\<lambda>item. \<not> malformed item) data)
            \<and> (\<forall>j d item i. j < length out
                  \<and> filter (\<lambda>(d, item). \<not> malformed item) (enumerate 0 data) ! j = (d, item)
                  \<and> i < sentenceCount item \<longrightarrow>
                  (\<exists>q t e. DataItemWithExcerpts.query item = Some q
                     \<and> tokenized_response item = Some t \<and> excerpts item = Some e
                     \<and> genL (Sentence d i) (SELECTION_USER q (e ! i) (t ! i))
                       = Inr (out ! j ! i)))))
   \<and> (tokenized_response item = Some t \<and> excerpts item = Some e \<and> length t = length e
        \<and> DataItemWithExcerpts.query item = Some q
        \<and> (\<forall>i. i < length t \<longrightarrow>
               (\<exists>r. genL (Sentence k i) (SELECTION_USER q (e ! i) (t ! i)) = Inr r)) \<longrightarrow>
        (\<exists>outs calls. selectionItem genL k item = Pushed outs calls
            \<and> selectionPushed genL k item = outs
            \<and> length outs = length t
            \<and> (\<forall>i. i < length t \<longrightarrow>
                   genL (Sentence k i) (SELECTION_USER q (e ! i) (t ! i)) = Inr (outs ! i))))"
    (is "?dis_run \<and> ?dis_len \<and> ?dis_nth \<and> ?dec_run \<and> ?dec_len \<and>
        ?dec_nth \<and> ?ent_run \<and> ?ent_len \<and> ?ent_nth \<and> ?ext_run \<and>
        ?ext_len \<and> ?ext_nth \<and> ?cov_run \<and> ?cov_len \<and> ?cov_nth \<and>
        ?sel_written \<and> ?sel_success \<and> ?sel_document")
proof -
  have sel_run: "\<exists>out calls. claimifySelection genL (Array data) = Written (out, calls)
            \<and> length out = length (filter (\<lambda>item. \<not> malformed item) data)
            \<and> out = map (\<lambda>(d, item). selectionPushed genL d item)
                      (filter (\<lambda>(d, item). \<not> malformed item) (enumerate 0 data))"
    if qs: "\<forall>item \<in> set data. \<not> malformed item \<longrightarrow> DataItemWithExcerpts.query item \<noteq> None"
  proof -
    from selectionItems_pushed_in_order [OF qs, of genL 0] obtain calls where
      run: "selectionItems genL 0 data
            = Written (map (\<lambda>(d, item). selectionPushed genL d item)
                         (filter (\<lambda>(d, item). \<not> malformed item) (enumerate 0 data)), calls)"
      by blast
    have "length (filter (\<lambda>(d, item). \<not> malformed item) (enumerate 0 data))
          = length (map snd (filter (\<lambda>(d, item). \<not> malformed item) (enumerate 0 data)))"
      by simp
    also have "\<dots> = length (filter (\<lambda>item. \<not> malformed item) data)"
      by (simp only: enumerate_filter_snd)
    finally show ?thesis
      using run by (simp add: claimifySelection_def)
  qed
  have sel_all: "\<exists>out calls. claimifySelection genL (Array data) = Written (out, calls)
            \<and> map length out = map sentenceCount (filter (\<lambda>item. \<not> malformed item) data)
            \<and> (\<forall>j d item i. j < length out
                  \<and> filter (\<lambda>(d, item). \<not> malformed item) (enumerate 0 data) ! j = (d, item)
                  \<and> i < sentenceCount item \<longrightarrow>
                  (\<exists>q t e. DataItemWithExcerpts.query item = Some q
                     \<and> tokenized_response item = Some t \<and> excerpts item = Some e
                     \<and> genL (Sentence d i) (SELECTION_USER q (e ! i) (t ! i))
                       = Inr (out ! j ! i)))"
    if "(\<forall>item \<in> set data. \<not> malformed item \<longrightarrow> DataItemWithExcerpts.query item \<noteq> None)
        \<and> (\<forall>s p. \<exists>r. genL s p = Inr r)"
  proof -
    from that have qs: "\<forall>item \<in> set data. \<not> malformed item \<longrightarrow>
                          DataItemWithExcerpts.query item \<noteq> None"
      and ok: "\<forall>s p. \<exists>r. genL s p = Inr r"
      by blast+
    from selection_run_all_succeed [OF qs ok, of 0] show ?thesis
      by (simp only: claimifySelection_def parsed.case)
  qed
  have sel_doc: "\<exists>outs calls. selectionItem genL k item = Pushed outs calls
            \<and> selectionPushed genL k item = outs
            \<and> length outs = length t
            \<and> (\<forall>i. i < length t \<longrightarrow>
                   genL (Sentence k i) (SELECTION_USER q (e ! i) (t ! i)) = Inr (outs ! i))"
    if "tokenized_response item = Some t \<and> excerpts item = Some e \<and> length t = length e
        \<and> DataItemWithExcerpts.query item = Some q
        \<and> (\<forall>i. i < length t \<longrightarrow>
               (\<exists>r. genL (Sentence k i) (SELECTION_USER q (e ! i) (t ! i)) = Inr r))"
  proof -
    from that have t: "tokenized_response item = Some t" and e: "excerpts item = Some e"
      and len: "length t = length e" and q: "DataItemWithExcerpts.query item = Some q"
      and ok: "\<forall>i. i < length t \<longrightarrow>
               (\<exists>r. genL (Sentence k i) (SELECTION_USER q (e ! i) (t ! i)) = Inr r)"
      by blast+
    from selectionPushed_all_succeed [OF t e len q ok] show ?thesis
      by blast
  qed
  show ?thesis
  proof (intro conjI)
    show ?dis_run
      by (simp add: claimifyDisambiguiation_def)
    show ?dis_len
      unfolding disambiguationDocuments_def by (rule nested_for_index_length)
    show ?dis_nth
      unfolding disambiguationDocuments_def by (simp add: nested_for_index_nth)
    show ?dec_run
      by (simp add: claimifyDecomposition_def)
    show ?dec_len
      unfolding decompositionDocuments_def by (rule nested_for_index_length)
    show ?dec_nth
      unfolding decompositionDocuments_def by (simp add: nested_for_index_nth)
    show ?ent_run
      by (simp add: entailmentEvaluator_def)
    show ?ent_len
      unfolding entailmentDocuments_def by (rule nested_for_index_length)
    show ?ent_nth
      unfolding entailmentDocuments_def by (simp add: nested_for_index_nth)
    show ?ext_run
      by (simp add: elementExtractorV2_def)
    show ?ext_len
      unfolding elementExtractorDocuments_def by (rule nested_for_index_length)
    show ?ext_nth
      unfolding elementExtractorDocuments_def by (simp add: nested_for_index_nth)
    show ?cov_run
      by (simp add: elementCoverageEvaluatorV2_def)
    show ?cov_len
      unfolding elementCoverageDocuments_def by (rule nested_for_index_length)
    show ?cov_nth
      unfolding elementCoverageDocuments_def by (simp add: nested_for_index_nth)
    show ?sel_written
      using sel_run by (rule impI)
    show ?sel_success
      using sel_all by (rule impI)
    show ?sel_document
      using sel_doc by (rule impI)
  qed
qed

theorem stage_outputs_aligned_witness:
  "map length (fst (disambiguationDocuments (\<lambda>s p. Inl ''timeout'')
      [[Populated (example_sentenceData ''S'' ''remains unchanged''), EmptyObject]])) = [2]
   \<and> map length (fst (decompositionDocuments (\<lambda>s p. Inl ''timeout'')
      [[Populated (example_disambiguationData True), EmptyObject]])) = [2]
   \<and> map length (fst (entailmentDocuments (\<lambda>s p. Inl ''timeout'')
      [[Populated (example_decompositionData ''D'' ''Q?'' ''E''), EmptyObject]])) = [2]
   \<and> map length (fst (elementExtractorDocuments (\<lambda>s p. Inl ''timeout'')
      [[Populated (example_decompositionData ''D'' ''Q?'' ''E''), EmptyObject]])) = [2]
   \<and> map length (fst (elementCoverageDocuments (\<lambda>s p. Inl ''timeout'')
      [[Populated (example_elementCoverageData (Inr example_elementExtraction)),
        EmptyObject]])) = [2]
   \<and> (\<exists>out calls.
         claimifySelection (\<lambda>s p. Inr (example_selectionOutput ''S'' ''None''))
           (Array [example_item [''S1'', ''S2''] [''E1''], example_item [''S3''] [''E3'']])
         = Written (out, calls) \<and> length out = 1
         \<and> out = [selectionPushed (\<lambda>s p. Inr (example_selectionOutput ''S'' ''None'')) 1
                      (example_item [''S3''] [''E3''])])
   \<and> (\<exists>out calls.
         claimifySelection (\<lambda>s p. Inr (example_selectionOutput ''S'' ''None''))
           (Array [example_item [''S1'', ''S2''] [''E1''], example_item [''S3''] [''E3'']])
         = Written (out, calls) \<and> map length out = [1]
         \<and> out ! 0 ! 0 = example_selectionOutput ''S'' ''None'')
   \<and> (\<exists>outs calls.
         selectionItem (\<lambda>s p. Inr (example_selectionOutput ''S'' ''None'')) 1
           (example_item [''S3''] [''E3''])
         = Pushed outs calls
         \<and> selectionPushed (\<lambda>s p. Inr (example_selectionOutput ''S'' ''None'')) 1
               (example_item [''S3''] [''E3'']) = outs
         \<and> length outs = 1
         \<and> outs ! 0 = example_selectionOutput ''S'' ''None'')"
proof -
  note aligned = stage_outputs_aligned
    [where genS = "\<lambda>s p. Inl ''timeout''"
       and dataS = "[[Populated (example_sentenceData ''S'' ''remains unchanged''), EmptyObject]]"
       and genD = "\<lambda>s p. Inl ''timeout''"
       and dataD = "[[Populated (example_disambiguationData True), EmptyObject]]"
       and genE = "\<lambda>s p. Inl ''timeout''"
       and dataC = "[[Populated (example_decompositionData ''D'' ''Q?'' ''E''), EmptyObject]]"
       and genX = "\<lambda>s p. Inl ''timeout''"
       and genV = "\<lambda>s p. Inl ''timeout''"
       and dataE = "[[Populated (example_elementCoverageData (Inr example_elementExtraction)),
                      EmptyObject]]"
       and genL = "\<lambda>s p. Inr (example_selectionOutput ''S'' ''None'')"
       and data = "[example_item [''S1'', ''S2''] [''E1''], example_item [''S3''] [''E3'']]"
       and item = "example_item [''S3''] [''E3'']"
       and t = "[''S3'']" and e = "[''E3'']" and q = "''Q?''" and k = 1]
  note r1 = aligned [THEN conjunct2]
  note dis_len = r1 [THEN conjunct1]
  note r4 = r1 [THEN conjunct2, THEN conjunct2, THEN conjunct2]
  note dec_len = r4 [THEN conjunct1]
  note r7 = r4 [THEN conjunct2, THEN conjunct2, THEN conjunct2]
  note ent_len = r7 [THEN conjunct1]
  note r10 = r7 [THEN conjunct2, THEN conjunct2, THEN conjunct2]
  note ext_len = r10 [THEN conjunct1]
  note r13 = r10 [THEN conjunct2, THEN conjunct2, THEN conjunct2]
  note cov_len = r13 [THEN conjunct1]
  note r15 = r13 [THEN conjunct2, THEN conjunct2]
  note sel_written = r15 [THEN conjunct1]
  note sel_success = r15 [THEN conjunct2, THEN conjunct1]
  note sel_document = r15 [THEN conjunct2, THEN conjunct2]
  have sel_hyp: "\<forall>item \<in> set [example_item [''S1'', ''S2''] [''E1''], example_item [''S3''] [''E3'']].
                   \<not> malformed item \<longrightarrow> DataItemWithExcerpts.query item \<noteq> None"
    by (simp add: example_item_def)
  have kept: "filter (\<lambda>item. \<not> malformed item) [example_item [''S1'', ''S2''] [''E1''], example_item [''S3''] [''E3'']] = [example_item [''S3''] [''E3'']]"
    by (simp add: example_item_def malformed_def)
  have kept_at: "filter (\<lambda>(d, item). \<not> malformed item) (enumerate 0 [example_item [''S1'', ''S2''] [''E1''], example_item [''S3''] [''E3'']])
                 = [(1, example_item [''S3''] [''E3''])]"
    by (simp add: example_item_def malformed_def)
  have counts: "sentenceCount (example_item [''S3''] [''E3'']) = 1"
    by (simp add: example_item_def sentenceCount_def)
  have succeed: "\<forall>s p. \<exists>r. (Inr (example_selectionOutput ''S'' ''None'') :: string + SelectionOutputSchema) = Inr r"
    by simp
  have doc_hyp: "tokenized_response (example_item [''S3''] [''E3'']) = Some [''S3'']
                 \<and> excerpts (example_item [''S3''] [''E3'']) = Some [''E3'']
                 \<and> length [''S3''] = length [''E3'']
                 \<and> DataItemWithExcerpts.query (example_item [''S3''] [''E3'']) = Some ''Q?''
                 \<and> (\<forall>i. i < length [''S3''] \<longrightarrow>
                        (\<exists>r. (Inr (example_selectionOutput ''S'' ''None'') :: string + SelectionOutputSchema) = Inr r))"
    by (simp add: example_item_def)
  from dis_len dec_len ent_len ext_len cov_len have stages:
    "map length (fst (disambiguationDocuments (\<lambda>s p. Inl ''timeout'')
        [[Populated (example_sentenceData ''S'' ''remains unchanged''), EmptyObject]])) = [2]
     \<and> map length (fst (decompositionDocuments (\<lambda>s p. Inl ''timeout'')
        [[Populated (example_disambiguationData True), EmptyObject]])) = [2]
     \<and> map length (fst (entailmentDocuments (\<lambda>s p. Inl ''timeout'')
        [[Populated (example_decompositionData ''D'' ''Q?'' ''E''), EmptyObject]])) = [2]
     \<and> map length (fst (elementExtractorDocuments (\<lambda>s p. Inl ''timeout'')
        [[Populated (example_decompositionData ''D'' ''Q?'' ''E''), EmptyObject]])) = [2]
     \<and> map length (fst (elementCoverageDocuments (\<lambda>s p. Inl ''timeout'')
        [[Populated (example_elementCoverageData (Inr example_elementExtraction)),
          EmptyObject]])) = [2]"
    by simp
  from sel_written [THEN mp, OF sel_hyp] have run:
    "\<exists>out calls.
         claimifySelection (\<lambda>s p. Inr (example_selectionOutput ''S'' ''None'')) (Array [example_item [''S1'', ''S2''] [''E1''], example_item [''S3''] [''E3'']])
         = Written (out, calls) \<and> length out = 1
         \<and> out = [selectionPushed (\<lambda>s p. Inr (example_selectionOutput ''S'' ''None'')) 1 (example_item [''S3''] [''E3''])]"
    unfolding kept kept_at by simp
  from sel_success [THEN mp, OF conjI [OF sel_hyp succeed]] obtain out calls where
    written: "claimifySelection (\<lambda>s p. Inr (example_selectionOutput ''S'' ''None'')) (Array [example_item [''S1'', ''S2''] [''E1''], example_item [''S3''] [''E3'']]) = Written (out, calls)"
    and lens: "map length out = [1]"
    and entries: "\<forall>j d item i. j < length out
                  \<and> [(1 :: nat, example_item [''S3''] [''E3''])] ! j = (d, item)
                  \<and> i < sentenceCount item \<longrightarrow>
                  (\<exists>q t e. DataItemWithExcerpts.query item = Some q
                     \<and> tokenized_response item = Some t \<and> excerpts item = Some e
                     \<and> (Inr (example_selectionOutput ''S'' ''None'') :: string + SelectionOutputSchema) = Inr (out ! j ! i))"
    unfolding kept kept_at counts list.map by (elim exE conjE) simp
  from lens have pos: "0 < length out"
    by (cases out) simp_all
  from entries have "0 < length out \<and> [(1 :: nat, example_item [''S3''] [''E3''])] ! 0 = (1, example_item [''S3''] [''E3''])
                     \<and> 0 < sentenceCount (example_item [''S3''] [''E3'']) \<longrightarrow>
                     (\<exists>q t e. DataItemWithExcerpts.query (example_item [''S3''] [''E3'']) = Some q
                        \<and> tokenized_response (example_item [''S3''] [''E3'']) = Some t \<and> excerpts (example_item [''S3''] [''E3'']) = Some e
                        \<and> (Inr (example_selectionOutput ''S'' ''None'') :: string + SelectionOutputSchema) = Inr (out ! 0 ! 0))"
    by blast
  with pos counts have first: "out ! 0 ! 0 = example_selectionOutput ''S'' ''None''"
    by simp
  from written lens first have all_succeed:
    "\<exists>out calls.
         claimifySelection (\<lambda>s p. Inr (example_selectionOutput ''S'' ''None'')) (Array [example_item [''S1'', ''S2''] [''E1''], example_item [''S3''] [''E3'']])
         = Written (out, calls) \<and> map length out = [1]
         \<and> out ! 0 ! 0 = example_selectionOutput ''S'' ''None''"
    by (intro exI conjI)
  from sel_document [THEN mp, OF doc_hyp] have doc:
    "\<exists>outs calls.
         selectionItem (\<lambda>s p. Inr (example_selectionOutput ''S'' ''None'')) 1 (example_item [''S3''] [''E3''])
         = Pushed outs calls
         \<and> selectionPushed (\<lambda>s p. Inr (example_selectionOutput ''S'' ''None'')) 1 (example_item [''S3''] [''E3'']) = outs
         \<and> length outs = 1
         \<and> outs ! 0 = example_selectionOutput ''S'' ''None''"
    by auto
  from stages run all_succeed doc show ?thesis
    by (elim conjE) (intro conjI)
qed

text \<open>
  Claim C1 as stated fails at Selection: of two documents with 2 and 1 sentences, the first
  with a single excerpt, the run writes one output sequence, of length 1.
\<close>

theorem selection_output_not_aligned:
  "claimifySelection (\<lambda>s p. Inr (example_selectionOutput ''S3'' ''remains unchanged''))
     (Array [example_item [''S1'', ''S2''] [''E1''], example_item [''S3''] [''E3'']])
   = Written ([[example_selectionOutput ''S3'' ''remains unchanged'']],
              [(Sentence 1 0, SELECTION_USER ''Q?'' ''E3'' ''S3'')])
   \<and> map sentenceCount [example_item [''S1'', ''S2''] [''E1''], example_item [''S3''] [''E3'']]
     = [2, 1]"
  by (simp add: claimifySelection_def selectionItem_def selectionSentence_def for_index_def
      example_item_def sentenceCount_def Let_def)

section \<open>Structural errors and failed calls\<close>

text \<open>
  Claim C4 as stated fails at Selection: a document with one sentence and no excerpt is
  skipped and the output for the next document is written; and a non-array input makes the
  run return without raising.
\<close>

theorem structural_error_does_not_abort:
  "claimifySelection (\<lambda>s p. Inr (example_selectionOutput ''S2'' ''None''))
     (Array [example_item [''S1''] [], example_item [''S2''] [''E2'']])
   = Written ([[example_selectionOutput ''S2'' ''None'']],
              [(Sentence 1 0, SELECTION_USER ''Q?'' ''E2'' ''S2'')])
   \<and> claimifySelection (\<lambda>s p. Inr (example_selectionOutput ''S2'' ''None'')) NotArray
     = ReturnedWithoutOutput"
  by (simp add: claimifySelection_def selectionItem_def selectionSentence_def for_index_def
      example_item_def Let_def)

text \<open>
  Claim C4, as amended. At every stage a non-array input artifact makes the run return
  without writing output and without raising. At Selection a document whose
  \<^verbatim>\<open>tokenized_response\<close> or \<^verbatim>\<open>excerpts\<close> is missing, or whose lengths differ, is
  skipped and the run continues with the remaining documents; a well-formed document
  without a query raises, and an error raised at any document aborts the whole run, which
  rethrows it and writes nothing.
\<close>

theorem structural_errors_by_stage:
  "claimifySelection genL NotArray = ReturnedWithoutOutput
   \<and> claimifyDisambiguiation genS NotArray = ReturnedWithoutOutput
   \<and> claimifyDecomposition genD NotArray = ReturnedWithoutOutput
   \<and> entailmentEvaluator genE NotArray = ReturnedWithoutOutput
   \<and> elementExtractorV2 genX NotArray = ReturnedWithoutOutput
   \<and> elementCoverageEvaluatorV2 genV NotArray = ReturnedWithoutOutput
   \<and> (malformed item \<longrightarrow>
        selectionItems genL k (item # rest) = selectionItems genL (Suc k) rest)
   \<and> (\<not> malformed item \<and> DataItemWithExcerpts.query item = None \<longrightarrow>
        selectionItems genL k (item # rest) = Thrown)
   \<and> (selectionItems genL (Suc k) rest = Thrown \<longrightarrow>
        selectionItems genL k (item # rest) = Thrown)"
  using selectionItems_skip [of item genL k rest] selectionItems_throw [of item genL k rest]
    selectionItems_throw_later [of genL k rest item]
  by (simp add: claimifySelection_def claimifyDisambiguiation_def claimifyDecomposition_def
      entailmentEvaluator_def elementExtractorV2_def elementCoverageEvaluatorV2_def)

theorem structural_errors_by_stage_witness:
  "malformed (example_item [''S1''] [])
   \<and> selectionItems (\<lambda>s p. Inr (example_selectionOutput ''S2'' ''None'')) 0
        [example_item [''S1''] [], example_item [''S2''] [''E2'']]
     = selectionItems (\<lambda>s p. Inr (example_selectionOutput ''S2'' ''None'')) 1
        [example_item [''S2''] [''E2'']]
   \<and> \<not> malformed ((example_item [''S1''] [''E1'']) \<lparr> DataItemWithExcerpts.query := None \<rparr>)
   \<and> selectionItems (\<lambda>s p. Inr (example_selectionOutput ''S2'' ''None'')) 1
        [(example_item [''S1''] [''E1'']) \<lparr> DataItemWithExcerpts.query := None \<rparr>]
     = Thrown
   \<and> selectionItems (\<lambda>s p. Inr (example_selectionOutput ''S2'' ''None'')) 0
        [example_item [''S2''] [''E2''],
         (example_item [''S1''] [''E1'']) \<lparr> DataItemWithExcerpts.query := None \<rparr>]
     = Thrown"
proof -
  have bad: "malformed (example_item [''S1''] [])"
    by (simp add: malformed_def example_item_def)
  have noq: "\<not> malformed ((example_item [''S1''] [''E1'']) \<lparr> DataItemWithExcerpts.query := None \<rparr>)
             \<and> DataItemWithExcerpts.query
                 ((example_item [''S1''] [''E1'']) \<lparr> DataItemWithExcerpts.query := None \<rparr>) = None"
    by (simp add: malformed_def example_item_def)
  from bad structural_errors_by_stage
    [where item = "example_item [''S1''] []" and k = 0
       and genL = "\<lambda>s p. Inr (example_selectionOutput ''S2'' ''None'')"
       and rest = "[example_item [''S2''] [''E2'']]"]
  have skip: "selectionItems (\<lambda>s p. Inr (example_selectionOutput ''S2'' ''None'')) 0
        [example_item [''S1''] [], example_item [''S2''] [''E2'']]
     = selectionItems (\<lambda>s p. Inr (example_selectionOutput ''S2'' ''None'')) 1
        [example_item [''S2''] [''E2'']]"
    by simp
  from noq structural_errors_by_stage
    [where item = "(example_item [''S1''] [''E1'']) \<lparr> DataItemWithExcerpts.query := None \<rparr>"
       and k = 1 and genL = "\<lambda>s p. Inr (example_selectionOutput ''S2'' ''None'')"
       and rest = "[]"]
  have thrown: "selectionItems (\<lambda>s p. Inr (example_selectionOutput ''S2'' ''None'')) 1
        [(example_item [''S1''] [''E1'']) \<lparr> DataItemWithExcerpts.query := None \<rparr>]
     = Thrown"
    by blast
  from thrown structural_errors_by_stage
    [where item = "example_item [''S2''] [''E2'']" and k = 0
       and genL = "\<lambda>s p. Inr (example_selectionOutput ''S2'' ''None'')"
       and rest = "[(example_item [''S1''] [''E1'']) \<lparr> DataItemWithExcerpts.query := None \<rparr>]"]
  have later: "selectionItems (\<lambda>s p. Inr (example_selectionOutput ''S2'' ''None'')) 0
        [example_item [''S2''] [''E2''],
         (example_item [''S1''] [''E1'']) \<lparr> DataItemWithExcerpts.query := None \<rparr>]
     = Thrown"
    by simp
  from bad noq skip thrown later show ?thesis
    by blast
qed

text \<open>
  Claim C2 at its failing input. With three sentences and a failing call at index 1,
  Selection writes two entries, the two successes; Disambiguation on three populated slots
  with the same failure writes three: success, error record, success.
\<close>

theorem selection_drops_failed_sentence:
  "claimifySelection
     (\<lambda>s p. if s = Sentence 0 1 then Inl ''timeout''
            else Inr (example_selectionOutput ''S'' ''remains unchanged''))
     (Array [example_item [''S0'', ''S1'', ''S2''] [''E0'', ''E1'', ''E2'']])
   = Written
       ([[example_selectionOutput ''S'' ''remains unchanged'',
          example_selectionOutput ''S'' ''remains unchanged'']],
        [(Sentence 0 0, SELECTION_USER ''Q?'' ''E0'' ''S0''),
         (Sentence 0 1, SELECTION_USER ''Q?'' ''E1'' ''S1''),
         (Sentence 0 2, SELECTION_USER ''Q?'' ''E2'' ''S2'')])
   \<and> fst (disambiguationDocuments
        (\<lambda>s p. if s = Sentence 0 1 then Inl ''timeout'' else Inr example_disambiguationOutput)
        [[Populated (example_sentenceData ''S0'' ''remains unchanged''),
          Populated (example_sentenceData ''S1'' ''remains unchanged''),
          Populated (example_sentenceData ''S2'' ''remains unchanged'')]])
     = [[Populated (DisambiguationOutputSchema.extend example_disambiguationOutput
                      (DisambiguationData.fields ''S0'' ''Q?'' ''E'')),
         Populated (DisambiguationOutputSchema.extend (disambiguationErrorOutput ''timeout'')
                      (DisambiguationData.fields ''S1'' ''Q?'' ''E'')),
         Populated (DisambiguationOutputSchema.extend example_disambiguationOutput
                      (DisambiguationData.fields ''S2'' ''Q?'' ''E''))]]"
proof -
  have sel: "claimifySelection
     (\<lambda>s p. if s = Sentence 0 1 then Inl ''timeout''
            else Inr (example_selectionOutput ''S'' ''remains unchanged''))
     (Array [example_item [''S0'', ''S1'', ''S2''] [''E0'', ''E1'', ''E2'']])
   = Written
       ([[example_selectionOutput ''S'' ''remains unchanged'',
          example_selectionOutput ''S'' ''remains unchanged'']],
        [(Sentence 0 0, SELECTION_USER ''Q?'' ''E0'' ''S0''),
         (Sentence 0 1, SELECTION_USER ''Q?'' ''E1'' ''S1''),
         (Sentence 0 2, SELECTION_USER ''Q?'' ''E2'' ''S2'')])"
    by (simp add: claimifySelection_def selectionItem_def selectionSentence_def for_index_def
        example_item_def Let_def upt_rec)
  have dis: "fst (disambiguationDocuments
        (\<lambda>s p. if s = Sentence 0 1 then Inl ''timeout'' else Inr example_disambiguationOutput)
        [[Populated (example_sentenceData ''S0'' ''remains unchanged''),
          Populated (example_sentenceData ''S1'' ''remains unchanged''),
          Populated (example_sentenceData ''S2'' ''remains unchanged'')]])
     = [[Populated (DisambiguationOutputSchema.extend example_disambiguationOutput
                      (DisambiguationData.fields ''S0'' ''Q?'' ''E'')),
         Populated (DisambiguationOutputSchema.extend (disambiguationErrorOutput ''timeout'')
                      (DisambiguationData.fields ''S1'' ''Q?'' ''E'')),
         Populated (DisambiguationOutputSchema.extend example_disambiguationOutput
                      (DisambiguationData.fields ''S2'' ''Q?'' ''E''))]]"
    by (simp add: disambiguationDocuments_def disambiguationSentence_def for_index_def
        sentenceForPrompt_def example_sentenceData_def Let_def upt_rec)
  from sel dis show ?thesis
    by (rule conjI)
qed

text \<open>
  Claim C3 at its failing inputs. At Selection a failed call stores nothing, although the
  error record that is built carries the verdict; at Disambiguation the stored record has
  \<^verbatim>\<open>canBeDisambiguated = false\<close>; at Entailment evaluation the stored evaluation is the
  error string, which has no conclusion, while the error record of the single-turn
  evaluator carries the conclusion.
\<close>

theorem failed_call_defaults:
  "fst (selectionSentence (\<lambda>s p. Inl ''timeout'') 0 ''doc.txt'' ''Q?'' [''E0''] 0 ''S0'') = []
   \<and> finalSubmission (selectionErrorOutput ''doc.txt'' 0 ''S0'' ''timeout'')
     = ''Does NOT contain a specific and verifiable proposition''
   \<and> fst (disambiguationSentence (\<lambda>s p. Inl ''timeout'') 0 0
           (Populated (example_sentenceData ''S0'' ''remains unchanged'')))
     = Populated (DisambiguationOutputSchema.extend (disambiguationErrorOutput ''timeout'')
                    (DisambiguationData.fields ''S0'' ''Q?'' ''E''))
   \<and> canBeDisambiguated (DisambiguationOutputSchema.extend (disambiguationErrorOutput ''timeout'')
                           (DisambiguationData.fields ''S0'' ''Q?'' ''E'')) = False
   \<and> fst (entailmentClaim (\<lambda>s p. Inl ''timeout'') 0 0
           (example_decompositionData ''D'' ''Q?'' ''E'') 0 ''C1'')
     = \<lparr> claim = ''C1'', entailmentEvaluation = Inl ''ERROR: timeout'' \<rparr>
   \<and> finalConclusion (baselineEntailmentErrorOutput ''D'' ''C1'' ''timeout'')
     = ''S does not entail all elements of C''"
  by (simp add: selectionSentence_def selectionErrorOutput_def disambiguationSentence_def
      disambiguationErrorOutput_def entailmentClaim_def baselineEntailmentErrorOutput_def
      sentenceForPrompt_def example_sentenceData_def error_marker_def Let_def
      DisambiguationOutputSchema.defs DisambiguationData.defs)

section \<open>Records stored on success\<close>





end
